theory Spec2Isabelle
  imports Main
begin

text \<open>
  The request pipeline of the Voyage AI client (package \<open>voyageai\<close>): one attempt
  (\<open>executeRequest\<close>), the classification of a failed attempt (\<open>classifyError\<close>,
  \<open>handleAPIError\<close>), the retry loop (\<open>handleAPIRequest\<close>), the three endpoint methods,
  and the wire form of the request structs. The network, \<open>encoding/json\<close> on bytes and
  \<open>net/http\<close> are parameters of the model; everything else is translated from
  \<open>client.go\<close> and from the file that declares the payload structs.
\<close>

section \<open>Errors of the client\<close>

text \<open>
  Modelled from the spec: the declaration of the type \<open>APIError\<close> that \<open>client.go\<close> uses
  (fields \<open>StatusCode\<close> and \<open>Response\<close>) is not among the sources; the spec describes it as
  carrying the numeric status code and the raw response body. \<open>client.go\<close> builds it as
  \<^verbatim>\<open>&APIError{StatusCode: resp.StatusCode, Response: body}\<close> with \<open>body\<close> the bytes read
  from the response. Go's \<open>int\<close> is modelled by \<open>int\<close>: the client does no arithmetic on a
  status code.
\<close>

record APIError =
  StatusCode :: int
  Response :: string

text \<open>
  A Go \<open>error\<close> value, as far as the client can tell errors apart: an error made by the
  standard library (\<open>encoding/json\<close>, \<open>net/http\<close>, \<open>io\<close>), an error wrapped by
  \<^verbatim>\<open>fmt.Errorf("<prefix>: %w", err)\<close>, a \<open>*APIError\<close>, and an error made by
  \<^verbatim>\<open>fmt.Errorf\<close> without \<open>%w\<close>. A nil \<open>error\<close> is \<open>None\<close> of \<open>error option\<close>.
\<close>

datatype error =
    LibError string
  | Wrapped string error
  | APIErr APIError
  | Errorf string

text \<open>
  \<^verbatim>\<open>errors.As(err, &apiError)\<close> with \<open>apiError : *APIError\<close>: the first \<open>*APIError\<close> on the
  chain of wrapped errors.
\<close>

fun errorsAs :: "error \<Rightarrow> APIError option" where
  "errorsAs (APIErr a) = Some a"
| "errorsAs (Wrapped p e) = errorsAs e"
| "errorsAs (LibError m) = None"
| "errorsAs (Errorf m) = None"

subsection \<open>The error classifier\<close>

text \<open>
  \<^verbatim>\<open>func (c *VoyageClient) handleAPIError(resp *APIError) (bool, error)\<close> of \<open>client.go\<close>.
  \<open>%s\<close> of the byte slice \<open>resp.Response\<close> prints the bytes as they are.
\<close>

definition handleAPIError :: "APIError \<Rightarrow> bool \<times> error option" where
  "handleAPIError resp =
     (if StatusCode resp = 400 then
        (False, Some (Errorf (''voyage: bad request, detail: '' @ Response resp)))
      else if StatusCode resp = 401 then
        (False, Some (Errorf (''voyage: unauthorized, detail: '' @ Response resp)))
      else if StatusCode resp = 422 then
        (False, Some (Errorf (''voyage: Malformed Request, detail: '' @ Response resp)))
      else if StatusCode resp = 429 then
        (True, Some (Errorf (''voyage: Rate Limit Reached, detail: '' @ Response resp)))
      else
        (True, Some (Errorf ''voyage: Server Error'')))"

text \<open>\<^verbatim>\<open>func (c *VoyageClient) classifyError(err error) (shouldRetry bool, apiErr error)\<close>\<close>

definition classifyError :: "error \<Rightarrow> bool \<times> error option" where
  "classifyError err =
     (case errorsAs err of
        Some apiError \<Rightarrow> handleAPIError apiError
      | None \<Rightarrow> (False, Some err))"

section \<open>The client and its environment\<close>

text \<open>
  \<^verbatim>\<open>type VoyageClientOpts struct\<close> and \<^verbatim>\<open>type VoyageClient struct\<close>. The client holds a pointer
  to the options object it was built from; the model keeps the state of that object in the
  field \<open>opts\<close>, and a method that writes through the pointer returns the client with the
  new state. The \<open>*http.Client\<close> is represented by the transport of the environment below.
\<close>

record VoyageClientOpts =
  Key :: string
  TimeOut :: int
  MaxRetries :: int
  BaseURL :: string

record VoyageClient =
  apikey :: string
  opts :: VoyageClientOpts
  baseURL :: string

text \<open>
  What one round trip over HTTP gives back to \<open>executeRequest\<close>: \<open>c.do\<close> fails, or it
  succeeds and \<open>io.ReadAll\<close> of the body fails, or status code and body arrive.
\<close>

datatype reply =
    DoFailed string
  | ReadFailed int string
  | Replied int string

text \<open>
  The library functions the client calls, as parameters. \<open>Marshal\<close> is \<open>json.Marshal\<close> on
  the request (\<open>Inl\<close> its error), \<open>NewRequest\<close> the error of \<open>http.NewRequest\<close> for a URL,
  \<open>Unmarshal\<close> is \<open>json.Unmarshal\<close> into the response object it is handed: it returns its
  error and the object as it has left it. \<open>Do\<close> is the remote end: the reply to the request
  with the given URL, \<open>Authorization\<close> header and body when \<open>n\<close> requests have been sent
  before it. The number of requests sent so far is the state that the functions below pass
  along.
\<close>

record ('req, 'resp) env =
  Marshal :: "'req \<Rightarrow> string + string"
  NewRequest :: "string \<Rightarrow> string option"
  Do :: "nat \<Rightarrow> string \<Rightarrow> string \<Rightarrow> string \<Rightarrow> reply"
  Unmarshal :: "string \<Rightarrow> 'resp \<Rightarrow> string option \<times> 'resp"

text \<open>\<^verbatim>\<open>func (c *VoyageClient) do(req *http.Request) (*http.Response, error)\<close>\<close>

definition do :: "VoyageClient \<Rightarrow> ('req, 'resp) env \<Rightarrow> nat \<Rightarrow> string \<Rightarrow> string \<Rightarrow> reply" where
  "do c e n url reqBytes = Do e n url (''BEARER '' @ apikey c) reqBytes"

subsection \<open>One attempt\<close>

text \<open>
  \<^verbatim>\<open>func (c *VoyageClient) executeRequest(reqBody any, respBody any, url string) error\<close>.
  The result is the error, the response object and the number of requests sent.
\<close>

definition executeRequest ::
  "VoyageClient \<Rightarrow> ('req, 'resp) env \<Rightarrow> 'req \<Rightarrow> 'resp \<Rightarrow> string \<Rightarrow> nat
     \<Rightarrow> error option \<times> 'resp \<times> nat" where
  "executeRequest c e reqBody respBody url n =
     (case Marshal e reqBody of
        Inl err \<Rightarrow> (Some (Wrapped ''marshal request'' (LibError err)), respBody, n)
      | Inr reqBytes \<Rightarrow>
         (case NewRequest e url of
            Some err \<Rightarrow> (Some (Wrapped ''create request'' (LibError err)), respBody, n)
          | None \<Rightarrow>
             (case do c e n url reqBytes of
                DoFailed err \<Rightarrow>
                  (Some (Wrapped ''execute request'' (LibError err)), respBody, Suc n)
              | ReadFailed code err \<Rightarrow>
                  (Some (Wrapped ''read response'' (LibError err)), respBody, Suc n)
              | Replied code body \<Rightarrow>
                  if 400 \<le> code then
                    (Some (APIErr \<lparr>StatusCode = code, Response = body\<rparr>), respBody, Suc n)
                  else
                    (case Unmarshal e body respBody of
                       (Some err, respBody') \<Rightarrow>
                         (Some (Wrapped ''unmarshal response'' (LibError err)), respBody', Suc n)
                     | (None, respBody') \<Rightarrow> (None, respBody', Suc n)))))"

subsection \<open>The retry loop\<close>

text \<open>
  The \<^verbatim>\<open>for i := 0; i < maxRetries; i++\<close> loop of \<open>handleAPIRequest\<close>, from the state
  \<open>(i, lastErr)\<close>. \<open>i\<close> stays below \<open>maxRetries\<close>, so \<open>i++\<close> never leaves the range of
  Go's \<open>int\<close>.
\<close>

function retryLoop ::
  "VoyageClient \<Rightarrow> ('req, 'resp) env \<Rightarrow> 'req \<Rightarrow> string \<Rightarrow> int \<Rightarrow> int \<Rightarrow> error option
     \<Rightarrow> 'resp \<Rightarrow> nat \<Rightarrow> error option \<times> 'resp \<times> nat" where
  "retryLoop c e reqBody url maxRetries i lastErr respBody n =
     (if i < maxRetries then
        (case executeRequest c e reqBody respBody url n of
           (Some err, respBody', n') \<Rightarrow>
             (case classifyError err of
                (True, apiErr) \<Rightarrow> retryLoop c e reqBody url maxRetries (i + 1) apiErr respBody' n'
              | (False, apiErr) \<Rightarrow> (Some err, respBody', n'))
         | (None, respBody', n') \<Rightarrow> (None, respBody', n'))
      else (lastErr, respBody, n))"
  by pat_completeness auto
termination
  by (relation "measure (\<lambda>(c, e, reqBody, url, maxRetries, i, lastErr, respBody, n).
        nat (maxRetries - i))") auto

declare retryLoop.simps [simp del]

text \<open>
  \<^verbatim>\<open>func (c *VoyageClient) handleAPIRequest(reqBody any, respBody any, url string) error\<close>
  of \<open>client.go\<close>.
\<close>

definition handleAPIRequest ::
  "VoyageClient \<Rightarrow> ('req, 'resp) env \<Rightarrow> 'req \<Rightarrow> 'resp \<Rightarrow> string \<Rightarrow> nat
     \<Rightarrow> error option \<times> 'resp \<times> nat" where
  "handleAPIRequest c e reqBody respBody url n =
     (let maxRetries = MaxRetries (opts c);
          maxRetries = (if maxRetries = 0 then 1 else maxRetries)
      in retryLoop c e reqBody url maxRetries 0 None respBody n)"

section \<open>Requests, responses and the endpoint methods\<close>

text \<open>
  The structs of the request and response payloads. A field of a pointer type is an
  \<open>option\<close> (\<open>None\<close> the nil pointer), a slice is an \<open>option\<close> of a list (\<open>None\<close> the nil
  slice, which \<open>encoding/json\<close> writes as \<open>null\<close>). Field names carry the initials of their
  struct, since several structs share field names. \<open>float32\<close> values are only carried.
\<close>

typedecl float32

record EmbeddingRequest =
  Input_ER :: "string list option"
  Model_ER :: string
  InputType_ER :: "string option"
  Truncation_ER :: "bool option"
  OutputDimension_ER :: "int option"
  OutputDType_ER :: "string option"
  EncodingFormat_ER :: "string option"

record EmbeddingRequestOpts =
  InputType_ERO :: "string option"
  Truncation_ERO :: "bool option"
  OutputDimension_ERO :: "int option"
  OutputDType_ERO :: "string option"
  EncodingFormat_ERO :: "string option"

record EmbeddingObject =
  Object_EO :: string
  Embedding_EO :: "float32 list option"
  Index_EO :: int

record UsageObject =
  TotalTokens :: int
  ImagePixels :: "int option"
  TextTokens :: "int option"

record EmbeddingResponse =
  Object_ERS :: string
  Data_ERS :: "EmbeddingObject list option"
  Model_ERS :: string
  Usage_ERS :: UsageObject

record MultimodalInput =
  Type_MI :: string
  Text_MI :: string
  ImageBase64_MI :: string
  ImageURL_MI :: string

record MultimodalContent =
  Content :: "MultimodalInput list option"

record MultimodalRequest =
  Inputs_MR :: "MultimodalContent list option"
  Model_MR :: string
  InputType_MR :: "string option"
  Truncation_MR :: "bool option"
  OuputEncoding_MR :: "string option"

record MultimodalRequestOpts =
  InputType_MRO :: "string option"
  Truncation_MRO :: "bool option"
  OuputEncoding_MRO :: "string option"

record RerankRequest =
  Query_RR :: string
  Documents_RR :: "string list option"
  Model_RR :: string
  TopK_RR :: "int option"
  ReturnDocuments_RR :: "bool option"
  Truncation_RR :: "bool option"

record RerankRequestOpts =
  TopK_RRO :: "int option"
  ReturnDocuments_RRO :: "bool option"
  Truncation_RRO :: "bool option"

record RerankObject =
  Index_RO :: int
  RelevanceScore_RO :: float32
  Document_RO :: "string option"

record RerankResponse =
  Object_RRS :: string
  Data_RRS :: "RerankObject list option"
  Model_RRS :: string
  Usage_RRS :: UsageObject

text \<open>The zero values that \<^verbatim>\<open>var respBody EmbeddingResponse\<close> and its like declare.\<close>

definition zero_UsageObject :: UsageObject where
  "zero_UsageObject = \<lparr>TotalTokens = 0, ImagePixels = None, TextTokens = None\<rparr>"

definition zero_EmbeddingResponse :: EmbeddingResponse where
  "zero_EmbeddingResponse =
     \<lparr>Object_ERS = [], Data_ERS = None, Model_ERS = [], Usage_ERS = zero_UsageObject\<rparr>"

definition zero_RerankResponse :: RerankResponse where
  "zero_RerankResponse =
     \<lparr>Object_RRS = [], Data_RRS = None, Model_RRS = [], Usage_RRS = zero_UsageObject\<rparr>"

text \<open>
  The three endpoint methods of \<open>client.go\<close>. Each returns the pointer to its response
  object (\<open>Some\<close> of the object; \<open>None\<close> would be the nil pointer) and the error, and
  beside them the client, whose options object a method may have written to, and the
  number of requests sent.
\<close>

definition Embed ::
  "VoyageClient \<Rightarrow> (EmbeddingRequest, EmbeddingResponse) env \<Rightarrow> string list option \<Rightarrow> string
     \<Rightarrow> EmbeddingRequestOpts option \<Rightarrow> nat
     \<Rightarrow> (EmbeddingResponse option \<times> error option) \<times> VoyageClient \<times> nat" where
  "Embed c e texts model ropts n =
     (let reqBody =
            (case ropts of
               Some ro \<Rightarrow>
                 \<lparr>Input_ER = texts, Model_ER = model, InputType_ER = InputType_ERO ro,
                  Truncation_ER = Truncation_ERO ro,
                  OutputDimension_ER = OutputDimension_ERO ro,
                  OutputDType_ER = OutputDType_ERO ro,
                  EncodingFormat_ER = EncodingFormat_ERO ro\<rparr>
             | None \<Rightarrow>
                 \<lparr>Input_ER = texts, Model_ER = model, InputType_ER = None,
                  Truncation_ER = None, OutputDimension_ER = None, OutputDType_ER = None,
                  EncodingFormat_ER = None\<rparr>);
          (err, respBody, n') =
            handleAPIRequest c e reqBody zero_EmbeddingResponse (baseURL c @ ''/embeddings'') n
      in ((Some respBody, err), c, n'))"

definition MultimodalEmbed ::
  "VoyageClient \<Rightarrow> (MultimodalRequest, EmbeddingResponse) env \<Rightarrow> MultimodalContent list option
     \<Rightarrow> string \<Rightarrow> MultimodalRequestOpts option \<Rightarrow> nat
     \<Rightarrow> (EmbeddingResponse option \<times> error option) \<times> VoyageClient \<times> nat" where
  "MultimodalEmbed c e inputs model ropts n =
     (let reqBody =
            (case ropts of
               Some ro \<Rightarrow>
                 \<lparr>Inputs_MR = inputs, Model_MR = model, InputType_MR = InputType_MRO ro,
                  Truncation_MR = Truncation_MRO ro,
                  OuputEncoding_MR = OuputEncoding_MRO ro\<rparr>
             | None \<Rightarrow>
                 \<lparr>Inputs_MR = inputs, Model_MR = model, InputType_MR = None,
                  Truncation_MR = None, OuputEncoding_MR = None\<rparr>);
          c' = (if MaxRetries (opts c) = 0 then c\<lparr>opts := (opts c)\<lparr>MaxRetries := 1\<rparr>\<rparr> else c);
          (err, respBody, n') =
            handleAPIRequest c' e reqBody zero_EmbeddingResponse
              (baseURL c' @ ''/multimodalembeddings'') n
      in ((Some respBody, err), c', n'))"

definition Rerank ::
  "VoyageClient \<Rightarrow> (RerankRequest, RerankResponse) env \<Rightarrow> string \<Rightarrow> string list option
     \<Rightarrow> string \<Rightarrow> RerankRequestOpts option \<Rightarrow> nat
     \<Rightarrow> (RerankResponse option \<times> error option) \<times> VoyageClient \<times> nat" where
  "Rerank c e query documents model ropts n =
     (let reqBody =
            (case ropts of
               Some ro \<Rightarrow>
                 \<lparr>Query_RR = query, Documents_RR = documents, Model_RR = model,
                  TopK_RR = TopK_RRO ro, ReturnDocuments_RR = ReturnDocuments_RRO ro,
                  Truncation_RR = Truncation_RRO ro\<rparr>
             | None \<Rightarrow>
                 \<lparr>Query_RR = query, Documents_RR = documents, Model_RR = model,
                  TopK_RR = None, ReturnDocuments_RR = None, Truncation_RR = None\<rparr>);
          c' = (if MaxRetries (opts c) = 0 then c\<lparr>opts := (opts c)\<lparr>MaxRetries := 1\<rparr>\<rparr> else c);
          (err, respBody, n') =
            handleAPIRequest c' e reqBody zero_RerankResponse (baseURL c' @ ''/rerank'') n
      in ((Some respBody, err), c', n'))"

subsection \<open>Multimodal inputs\<close>

text \<open>
  The argument of \<^verbatim>\<open>func Multimodal(v any) MultimodalInput\<close>: a value with its dynamic type.
  The first three are the package's string types \<open>text\<close>, \<open>imageBase64\<close> and \<open>imageURL\<close>;
  the others stand for every other type a caller can pass.
\<close>

datatype any =
    Any_text string
  | Any_imageBase64 string
  | Any_imageURL string
  | Any_string string
  | Any_int int
  | Any_nil

definition zero_MultimodalInput :: MultimodalInput where
  "zero_MultimodalInput = \<lparr>Type_MI = [], Text_MI = [], ImageBase64_MI = [], ImageURL_MI = []\<rparr>"

fun Multimodal :: "any \<Rightarrow> MultimodalInput" where
  "Multimodal (Any_text v) =
     \<lparr>Type_MI = ''text'', Text_MI = v, ImageBase64_MI = [], ImageURL_MI = []\<rparr>"
| "Multimodal (Any_imageBase64 v) =
     \<lparr>Type_MI = ''image_base64'', Text_MI = [], ImageBase64_MI = v, ImageURL_MI = []\<rparr>"
| "Multimodal (Any_imageURL v) =
     \<lparr>Type_MI = ''image_url'', Text_MI = [], ImageBase64_MI = [], ImageURL_MI = v\<rparr>"
| "Multimodal _ = zero_MultimodalInput"

section \<open>The payloads on the wire\<close>

text \<open>
  \<open>encoding/json\<close> maps a struct to a JSON object as the struct's field tags say. The
  model works on JSON values (numbers are the integers, the only numbers a request
  holds). A \<open>JString\<close> holds the bytes of the string that \<open>Unmarshal\<close> reads from the text.
  Of the way \<open>Marshal\<close> writes a value as text, the one step that changes a value is
  modelled: a Go string is any sequence of bytes, and \<open>Marshal\<close> writes every byte that
  does not begin a valid UTF-8 encoding as the replacement character U+FFFD. The
  escapes it writes for other characters are read back as the same bytes.
\<close>

datatype json =
    JNull
  | JBool bool
  | JNumber int
  | JString string
  | JArray "json list"
  | JObject "(string \<times> json) list"

subsection \<open>Strings in JSON text\<close>

text \<open>
  \<^verbatim>\<open>utf8.DecodeRuneInString\<close>, as far as \<open>Marshal\<close> uses it: the number of bytes of the
  valid UTF-8 encoding at the head of the string, and 0 where Go returns
  \<open>(RuneError, 1)\<close> (or, for the empty string, \<open>(RuneError, 0)\<close>). A \<open>char\<close> is a byte.
\<close>

definition inRange :: "nat \<Rightarrow> nat \<Rightarrow> char \<Rightarrow> bool" where
  "inRange lo hi c \<longleftrightarrow> lo \<le> of_char c \<and> of_char c \<le> hi"

fun decodeRuneLen :: "string \<Rightarrow> nat" where
  "decodeRuneLen [] = 0"
| "decodeRuneLen (c # cs) =
     (if inRange 0x00 0x7F c then 1
      else if inRange 0xC2 0xDF c then
        (case cs of
           c1 # _ \<Rightarrow> if inRange 0x80 0xBF c1 then 2 else 0
         | _ \<Rightarrow> 0)
      else if inRange 0xE0 0xEF c then
        (case cs of
           c1 # c2 # _ \<Rightarrow>
             if inRange (if c = CHR 0xE0 then 0xA0 else 0x80)
                  (if c = CHR 0xED then 0x9F else 0xBF) c1
                \<and> inRange 0x80 0xBF c2
             then 3 else 0
         | _ \<Rightarrow> 0)
      else if inRange 0xF0 0xF4 c then
        (case cs of
           c1 # c2 # c3 # _ \<Rightarrow>
             if inRange (if c = CHR 0xF0 then 0x90 else 0x80)
                  (if c = CHR 0xF4 then 0x8F else 0xBF) c1
                \<and> inRange 0x80 0xBF c2 \<and> inRange 0x80 0xBF c3
             then 4 else 0
         | _ \<Rightarrow> 0)
      else 0)"

text \<open>
  The string that \<open>Unmarshal\<close> reads back from what \<open>Marshal\<close> has written for a Go
  string: a byte that begins no valid encoding has become the three bytes of U+FFFD,
  every valid encoding is as it was.
\<close>

function toValidUTF8 :: "string \<Rightarrow> string" where
  "toValidUTF8 [] = []"
| "toValidUTF8 (c # cs) =
     (if decodeRuneLen (c # cs) = 0 then
        [CHR 0xEF, CHR 0xBF, CHR 0xBD] @ toValidUTF8 cs
      else take (decodeRuneLen (c # cs)) (c # cs)
             @ toValidUTF8 (drop (decodeRuneLen (c # cs)) (c # cs)))"
  by pat_completeness auto
termination
  by (relation "measure length") (auto simp del: decodeRuneLen.simps)

text \<open>\<^verbatim>\<open>utf8.ValidString\<close>\<close>

function validUTF8 :: "string \<Rightarrow> bool" where
  "validUTF8 [] = True"
| "validUTF8 (c # cs) =
     (if decodeRuneLen (c # cs) = 0 then False
      else validUTF8 (drop (decodeRuneLen (c # cs)) (c # cs)))"
  by pat_completeness auto
termination
  by (relation "measure length") (auto simp del: decodeRuneLen.simps)

declare toValidUTF8.simps(2) [simp del] validUTF8.simps(2) [simp del]

definition marshalString :: "string \<Rightarrow> json" where
  "marshalString s = JString (toValidUTF8 s)"

subsection \<open>Marshalling\<close>

text \<open>
  A pointer field tagged \<open>omitempty\<close> is left out when the pointer is nil and written
  with the value it points to otherwise; a string field tagged \<open>omitempty\<close> is left out
  when it is empty; a nil slice is written as \<open>null\<close>. Every string is written by
  \<open>marshalString\<close>.
\<close>

definition omitemptyPtr :: "string \<Rightarrow> ('a \<Rightarrow> json) \<Rightarrow> 'a option \<Rightarrow> (string \<times> json) list" where
  "omitemptyPtr name enc p = (case p of None \<Rightarrow> [] | Some v \<Rightarrow> [(name, enc v)])"

definition omitemptyString :: "string \<Rightarrow> string \<Rightarrow> (string \<times> json) list" where
  "omitemptyString name s = (if s = [] then [] else [(name, marshalString s)])"

definition marshalSlice :: "('a \<Rightarrow> json) \<Rightarrow> 'a list option \<Rightarrow> json" where
  "marshalSlice enc xs = (case xs of None \<Rightarrow> JNull | Some ys \<Rightarrow> JArray (map enc ys))"

text \<open>The field tags of \<^verbatim>\<open>type EmbeddingRequest struct\<close>.\<close>

definition marshalEmbeddingRequest :: "EmbeddingRequest \<Rightarrow> json" where
  "marshalEmbeddingRequest r =
     JObject
       ([(''input'', marshalSlice marshalString (Input_ER r)), (''model'', marshalString (Model_ER r))]
        @ omitemptyPtr ''input_type'' marshalString (InputType_ER r)
        @ omitemptyPtr ''truncation'' JBool (Truncation_ER r)
        @ omitemptyPtr ''output_dimension'' JNumber (OutputDimension_ER r)
        @ omitemptyPtr ''output_dtype'' marshalString (OutputDType_ER r)
        @ omitemptyPtr ''encoding_format'' marshalString (EncodingFormat_ER r))"

text \<open>The field tags of \<^verbatim>\<open>type MultimodalInput struct\<close>.\<close>

definition marshalMultimodalInput :: "MultimodalInput \<Rightarrow> json" where
  "marshalMultimodalInput m =
     JObject
       ([(''type'', marshalString (Type_MI m))]
        @ omitemptyString ''text'' (Text_MI m)
        @ omitemptyString ''image_base64'' (ImageBase64_MI m)
        @ omitemptyString ''image_url'' (ImageURL_MI m))"

definition marshalMultimodalContent :: "MultimodalContent \<Rightarrow> json" where
  "marshalMultimodalContent mc =
     JObject [(''content'', marshalSlice marshalMultimodalInput (Content mc))]"

text \<open>The field tags of \<^verbatim>\<open>type MultimodalRequest struct\<close>.\<close>

definition marshalMultimodalRequest :: "MultimodalRequest \<Rightarrow> json" where
  "marshalMultimodalRequest r =
     JObject
       ([(''inputs'', marshalSlice marshalMultimodalContent (Inputs_MR r)),
         (''model'', marshalString (Model_MR r))]
        @ omitemptyPtr ''input_type'' marshalString (InputType_MR r)
        @ omitemptyPtr ''truncation'' JBool (Truncation_MR r)
        @ omitemptyPtr ''output_encoding'' marshalString (OuputEncoding_MR r))"

text \<open>The field tags of \<^verbatim>\<open>type RerankRequest struct\<close>.\<close>

definition marshalRerankRequest :: "RerankRequest \<Rightarrow> json" where
  "marshalRerankRequest r =
     JObject
       ([(''query'', marshalString (Query_RR r)),
         (''documents'', marshalSlice marshalString (Documents_RR r)),
         (''model'', marshalString (Model_RR r))]
        @ omitemptyPtr ''top_k'' JNumber (TopK_RR r)
        @ omitemptyPtr ''return_documents'' JBool (ReturnDocuments_RR r)
        @ omitemptyPtr ''truncation'' JBool (Truncation_RR r))"

subsection \<open>Unmarshalling\<close>

text \<open>
  \<^verbatim>\<open>json.Unmarshal\<close> into a value of a Go type; \<open>None\<close> is its type error. \<open>null\<close> leaves a
  string, a boolean or a number as it is, and makes a pointer or a slice nil. A member
  whose name is no field tag of the struct is skipped. Members are taken in their
  order, each writing its field of the struct decoded so far. (The library also accepts
  a name that matches a tag up to letter case; the names that marshalling writes match
  exactly, and only those are matched here. Go's \<open>int\<close> is modelled by \<open>int\<close>, so the
  library's range check on a number has no counterpart.)
\<close>

fun unmarshalString :: "json \<Rightarrow> string \<Rightarrow> string option" where
  "unmarshalString (JString s) cur = Some s"
| "unmarshalString JNull cur = Some cur"
| "unmarshalString _ cur = None"

fun unmarshalBool :: "json \<Rightarrow> bool \<Rightarrow> bool option" where
  "unmarshalBool (JBool b) cur = Some b"
| "unmarshalBool JNull cur = Some cur"
| "unmarshalBool _ cur = None"

fun unmarshalInt :: "json \<Rightarrow> int \<Rightarrow> int option" where
  "unmarshalInt (JNumber i) cur = Some i"
| "unmarshalInt JNull cur = Some cur"
| "unmarshalInt _ cur = None"

definition unmarshalPtr ::
  "(json \<Rightarrow> 'a \<Rightarrow> 'a option) \<Rightarrow> 'a \<Rightarrow> json \<Rightarrow> 'a option \<Rightarrow> 'a option option" where
  "unmarshalPtr dec zero j cur =
     (case j of
        JNull \<Rightarrow> Some None
      | _ \<Rightarrow> map_option Some (dec j (case cur of None \<Rightarrow> zero | Some v \<Rightarrow> v)))"

definition unmarshalSlice ::
  "(json \<Rightarrow> 'a \<Rightarrow> 'a option) \<Rightarrow> 'a \<Rightarrow> json \<Rightarrow> 'a list option option" where
  "unmarshalSlice dec zero j =
     (case j of
        JNull \<Rightarrow> Some None
      | JArray js \<Rightarrow> map_option Some (those (map (\<lambda>x. dec x zero) js))
      | _ \<Rightarrow> None)"

fun unmarshalFields ::
  "('r \<Rightarrow> string \<times> json \<Rightarrow> 'r option) \<Rightarrow> (string \<times> json) list \<Rightarrow> 'r \<Rightarrow> 'r option" where
  "unmarshalFields setField [] r = Some r"
| "unmarshalFields setField (m # ms) r =
     (case setField r m of None \<Rightarrow> None | Some r' \<Rightarrow> unmarshalFields setField ms r')"

definition unmarshalStruct ::
  "('r \<Rightarrow> string \<times> json \<Rightarrow> 'r option) \<Rightarrow> json \<Rightarrow> 'r \<Rightarrow> 'r option" where
  "unmarshalStruct setField j r =
     (case j of
        JObject ms \<Rightarrow> unmarshalFields setField ms r
      | JNull \<Rightarrow> Some r
      | _ \<Rightarrow> None)"

definition zero_EmbeddingRequest :: EmbeddingRequest where
  "zero_EmbeddingRequest =
     \<lparr>Input_ER = None, Model_ER = [], InputType_ER = None, Truncation_ER = None,
      OutputDimension_ER = None, OutputDType_ER = None, EncodingFormat_ER = None\<rparr>"

definition setEmbeddingRequestField ::
  "EmbeddingRequest \<Rightarrow> string \<times> json \<Rightarrow> EmbeddingRequest option" where
  "setEmbeddingRequestField r f =
     (let (name, j) = f in
      if name = ''input'' then
        map_option (\<lambda>v. r\<lparr>Input_ER := v\<rparr>) (unmarshalSlice unmarshalString [] j)
      else if name = ''model'' then
        map_option (\<lambda>v. r\<lparr>Model_ER := v\<rparr>) (unmarshalString j (Model_ER r))
      else if name = ''input_type'' then
        map_option (\<lambda>v. r\<lparr>InputType_ER := v\<rparr>)
          (unmarshalPtr unmarshalString [] j (InputType_ER r))
      else if name = ''truncation'' then
        map_option (\<lambda>v. r\<lparr>Truncation_ER := v\<rparr>)
          (unmarshalPtr unmarshalBool False j (Truncation_ER r))
      else if name = ''output_dimension'' then
        map_option (\<lambda>v. r\<lparr>OutputDimension_ER := v\<rparr>)
          (unmarshalPtr unmarshalInt 0 j (OutputDimension_ER r))
      else if name = ''output_dtype'' then
        map_option (\<lambda>v. r\<lparr>OutputDType_ER := v\<rparr>)
          (unmarshalPtr unmarshalString [] j (OutputDType_ER r))
      else if name = ''encoding_format'' then
        map_option (\<lambda>v. r\<lparr>EncodingFormat_ER := v\<rparr>)
          (unmarshalPtr unmarshalString [] j (EncodingFormat_ER r))
      else Some r)"

definition unmarshalEmbeddingRequest :: "json \<Rightarrow> EmbeddingRequest \<Rightarrow> EmbeddingRequest option" where
  "unmarshalEmbeddingRequest j r = unmarshalStruct setEmbeddingRequestField j r"

definition setMultimodalInputField ::
  "MultimodalInput \<Rightarrow> string \<times> json \<Rightarrow> MultimodalInput option" where
  "setMultimodalInputField m f =
     (let (name, j) = f in
      if name = ''type'' then
        map_option (\<lambda>v. m\<lparr>Type_MI := v\<rparr>) (unmarshalString j (Type_MI m))
      else if name = ''text'' then
        map_option (\<lambda>v. m\<lparr>Text_MI := v\<rparr>) (unmarshalString j (Text_MI m))
      else if name = ''image_base64'' then
        map_option (\<lambda>v. m\<lparr>ImageBase64_MI := v\<rparr>) (unmarshalString j (ImageBase64_MI m))
      else if name = ''image_url'' then
        map_option (\<lambda>v. m\<lparr>ImageURL_MI := v\<rparr>) (unmarshalString j (ImageURL_MI m))
      else Some m)"

definition unmarshalMultimodalInput :: "json \<Rightarrow> MultimodalInput \<Rightarrow> MultimodalInput option" where
  "unmarshalMultimodalInput j m = unmarshalStruct setMultimodalInputField j m"

definition zero_MultimodalContent :: MultimodalContent where
  "zero_MultimodalContent = \<lparr>Content = None\<rparr>"

definition setMultimodalContentField ::
  "MultimodalContent \<Rightarrow> string \<times> json \<Rightarrow> MultimodalContent option" where
  "setMultimodalContentField mc f =
     (let (name, j) = f in
      if name = ''content'' then
        map_option (\<lambda>v. mc\<lparr>Content := v\<rparr>)
          (unmarshalSlice unmarshalMultimodalInput zero_MultimodalInput j)
      else Some mc)"

definition unmarshalMultimodalContent ::
  "json \<Rightarrow> MultimodalContent \<Rightarrow> MultimodalContent option" where
  "unmarshalMultimodalContent j mc = unmarshalStruct setMultimodalContentField j mc"

definition zero_MultimodalRequest :: MultimodalRequest where
  "zero_MultimodalRequest =
     \<lparr>Inputs_MR = None, Model_MR = [], InputType_MR = None, Truncation_MR = None,
      OuputEncoding_MR = None\<rparr>"

definition setMultimodalRequestField ::
  "MultimodalRequest \<Rightarrow> string \<times> json \<Rightarrow> MultimodalRequest option" where
  "setMultimodalRequestField r f =
     (let (name, j) = f in
      if name = ''inputs'' then
        map_option (\<lambda>v. r\<lparr>Inputs_MR := v\<rparr>)
          (unmarshalSlice unmarshalMultimodalContent zero_MultimodalContent j)
      else if name = ''model'' then
        map_option (\<lambda>v. r\<lparr>Model_MR := v\<rparr>) (unmarshalString j (Model_MR r))
      else if name = ''input_type'' then
        map_option (\<lambda>v. r\<lparr>InputType_MR := v\<rparr>)
          (unmarshalPtr unmarshalString [] j (InputType_MR r))
      else if name = ''truncation'' then
        map_option (\<lambda>v. r\<lparr>Truncation_MR := v\<rparr>)
          (unmarshalPtr unmarshalBool False j (Truncation_MR r))
      else if name = ''output_encoding'' then
        map_option (\<lambda>v. r\<lparr>OuputEncoding_MR := v\<rparr>)
          (unmarshalPtr unmarshalString [] j (OuputEncoding_MR r))
      else Some r)"

definition unmarshalMultimodalRequest ::
  "json \<Rightarrow> MultimodalRequest \<Rightarrow> MultimodalRequest option" where
  "unmarshalMultimodalRequest j r = unmarshalStruct setMultimodalRequestField j r"

definition zero_RerankRequest :: RerankRequest where
  "zero_RerankRequest =
     \<lparr>Query_RR = [], Documents_RR = None, Model_RR = [], TopK_RR = None,
      ReturnDocuments_RR = None, Truncation_RR = None\<rparr>"

definition setRerankRequestField ::
  "RerankRequest \<Rightarrow> string \<times> json \<Rightarrow> RerankRequest option" where
  "setRerankRequestField r f =
     (let (name, j) = f in
      if name = ''query'' then
        map_option (\<lambda>v. r\<lparr>Query_RR := v\<rparr>) (unmarshalString j (Query_RR r))
      else if name = ''documents'' then
        map_option (\<lambda>v. r\<lparr>Documents_RR := v\<rparr>) (unmarshalSlice unmarshalString [] j)
      else if name = ''model'' then
        map_option (\<lambda>v. r\<lparr>Model_RR := v\<rparr>) (unmarshalString j (Model_RR r))
      else if name = ''top_k'' then
        map_option (\<lambda>v. r\<lparr>TopK_RR := v\<rparr>) (unmarshalPtr unmarshalInt 0 j (TopK_RR r))
      else if name = ''return_documents'' then
        map_option (\<lambda>v. r\<lparr>ReturnDocuments_RR := v\<rparr>)
          (unmarshalPtr unmarshalBool False j (ReturnDocuments_RR r))
      else if name = ''truncation'' then
        map_option (\<lambda>v. r\<lparr>Truncation_RR := v\<rparr>)
          (unmarshalPtr unmarshalBool False j (Truncation_RR r))
      else Some r)"

definition unmarshalRerankRequest :: "json \<Rightarrow> RerankRequest \<Rightarrow> RerankRequest option" where
  "unmarshalRerankRequest j r = unmarshalStruct setRerankRequestField j r"

section \<open>The earlier revision of the retry loop\<close>

text \<open>
  The sources hold a second, earlier revision of \<open>client.go\<close>, in which
  \<open>handleAPIError\<close> takes the \<open>*http.Response\<close> and \<open>handleAPIRequest\<close> contains the
  whole attempt. It is modelled beside the current one, under names ending in \<open>0\<close>.
  Its \<open>APIError\<close> is the struct with the one field \<open>Detail\<close>, tagged \<open>detail\<close>;
  \<open>parseDetail\<close> stands for \<^verbatim>\<open>json.Unmarshal(body, &apiError)\<close> followed by reading
  \<open>apiError.Detail\<close> (\<open>Inl\<close> the error of \<open>Unmarshal\<close>). The response is given by its status
  code and what \<open>io.ReadAll\<close> of its body returns (\<open>Inl\<close> the error).
\<close>

definition handleAPIError0 ::
  "(string \<Rightarrow> string + string) \<Rightarrow> int \<Rightarrow> string + string \<Rightarrow> bool \<times> error option" where
  "handleAPIError0 parseDetail code bodyRead =
     (case (if 400 \<le> code \<and> code < 500 then
              (case bodyRead of
                 Inl err \<Rightarrow> Inl (LibError err)
               | Inr body \<Rightarrow>
                  (case parseDetail body of
                     Inl err \<Rightarrow> Inl (LibError err)
                   | Inr detail \<Rightarrow> Inr detail))
            else Inr []) of
        Inl err \<Rightarrow> (False, Some err)
      | Inr detail \<Rightarrow>
          if code = 400 then
            (False, Some (Errorf (''voyage: bad request, detail: '' @ detail)))
          else if code = 401 then
            (False, Some (Errorf (''voyage: unauthorized, detail: '' @ detail)))
          else if code = 422 then
            (False, Some (Errorf (''voyage: Malformed Request, detail: '' @ detail)))
          else if code = 429 then
            (True, Some (Errorf (''voyage: Rate Limit Reached, detail: '' @ detail)))
          else
            (True, Some (Errorf ''voyage: Server Error'')))"

text \<open>
  The body of \<^verbatim>\<open>for range c.opts.MaxRetries\<close>, with the number of iterations still to
  run. A successful attempt does not leave the loop.
\<close>

fun retryLoop0 ::
  "(string \<Rightarrow> string + string) \<Rightarrow> VoyageClient \<Rightarrow> ('req, 'resp) env \<Rightarrow> 'req \<Rightarrow> string \<Rightarrow> nat
     \<Rightarrow> 'resp \<Rightarrow> nat \<Rightarrow> error option \<times> 'resp \<times> nat" where
  "retryLoop0 parseDetail c e reqBody url 0 respBody n = (None, respBody, n)"
| "retryLoop0 parseDetail c e reqBody url (Suc remaining) respBody n =
     (case Marshal e reqBody of
        Inl err \<Rightarrow> (Some (LibError err), respBody, n)
      | Inr bb \<Rightarrow>
         (case NewRequest e url of
            Some err \<Rightarrow> (Some (LibError err), respBody, n)
          | None \<Rightarrow>
             (case do c e n url bb of
                DoFailed err \<Rightarrow> (Some (LibError err), respBody, Suc n)
              | ReadFailed code err \<Rightarrow>
                  if 400 \<le> code then
                    (case handleAPIError0 parseDetail code (Inl err) of
                       (False, herr) \<Rightarrow> (herr, respBody, Suc n)
                     | (True, herr) \<Rightarrow>
                         retryLoop0 parseDetail c e reqBody url remaining respBody (Suc n))
                  else (Some (LibError err), respBody, Suc n)
              | Replied code body \<Rightarrow>
                  if 400 \<le> code then
                    (case handleAPIError0 parseDetail code (Inr body) of
                       (False, herr) \<Rightarrow> (herr, respBody, Suc n)
                     | (True, herr) \<Rightarrow>
                         retryLoop0 parseDetail c e reqBody url remaining respBody (Suc n))
                  else
                    (case Unmarshal e body respBody of
                       (Some err, respBody') \<Rightarrow> (Some (LibError err), respBody', Suc n)
                     | (None, respBody') \<Rightarrow>
                         retryLoop0 parseDetail c e reqBody url remaining respBody' (Suc n)))))"

text \<open>
  \<open>handleAPIRequest\<close> of the earlier revision: it writes the default into the options
  object, so the client is part of the result. \<^verbatim>\<open>for range n\<close> runs \<open>n\<close> times, and not
  at all for a negative \<open>n\<close>.
\<close>

definition handleAPIRequest0 ::
  "(string \<Rightarrow> string + string) \<Rightarrow> VoyageClient \<Rightarrow> ('req, 'resp) env \<Rightarrow> 'req \<Rightarrow> 'resp \<Rightarrow> string
     \<Rightarrow> nat \<Rightarrow> (error option \<times> 'resp \<times> nat) \<times> VoyageClient" where
  "handleAPIRequest0 parseDetail c e reqBody respBody url n =
     (let c' = (if MaxRetries (opts c) = 0 then c\<lparr>opts := (opts c)\<lparr>MaxRetries := 1\<rparr>\<rparr> else c)
      in (retryLoop0 parseDetail c' e reqBody url (nat (MaxRetries (opts c'))) respBody n, c'))"

section \<open>Notions used to state the properties\<close>

text \<open>The attempt count that \<open>handleAPIRequest\<close> resolves from the options.\<close>

definition resolvedMaxRetries :: "VoyageClient \<Rightarrow> int" where
  "resolvedMaxRetries c = (if MaxRetries (opts c) = 0 then 1 else MaxRetries (opts c))"

text \<open>
  A reply that makes the attempt fail with a retryable API error, and the error the
  classifier makes of a reply.
\<close>

definition retryable :: "reply \<Rightarrow> bool" where
  "retryable r =
     (case r of
        Replied code body \<Rightarrow>
          400 \<le> code \<and> fst (handleAPIError \<lparr>StatusCode = code, Response = body\<rparr>)
      | _ \<Rightarrow> False)"

definition classified :: "reply \<Rightarrow> error option" where
  "classified r =
     (case r of
        Replied code body \<Rightarrow> snd (handleAPIError \<lparr>StatusCode = code, Response = body\<rparr>)
      | _ \<Rightarrow> None)"

text \<open>
  What a response object can hold when a call fails: the value it was declared with, or
  what a failed \<open>Unmarshal\<close> has made of that value.
\<close>

definition errorPathResponse :: "('req, 'resp) env \<Rightarrow> 'resp \<Rightarrow> 'resp \<Rightarrow> bool" where
  "errorPathResponse e zero r \<longleftrightarrow>
     r = zero \<or> (\<exists>body derr. Unmarshal e body zero = (Some derr, r))"

text \<open>The member of a JSON object with a given name, if the object has one.\<close>

definition member :: "json \<Rightarrow> string \<Rightarrow> json option" where
  "member j name = (case j of JObject ms \<Rightarrow> map_of ms name | _ \<Rightarrow> None)"

text \<open>
  A request or an input with every string as it is read back from the wire. No field
  changes between set and unset, and no boolean or number changes.
\<close>

definition coerced_EmbeddingRequest :: "EmbeddingRequest \<Rightarrow> EmbeddingRequest" where
  "coerced_EmbeddingRequest r =
     r\<lparr>Input_ER := map_option (map toValidUTF8) (Input_ER r),
       Model_ER := toValidUTF8 (Model_ER r),
       InputType_ER := map_option toValidUTF8 (InputType_ER r),
       OutputDType_ER := map_option toValidUTF8 (OutputDType_ER r),
       EncodingFormat_ER := map_option toValidUTF8 (EncodingFormat_ER r)\<rparr>"

definition coerced_MultimodalInput :: "MultimodalInput \<Rightarrow> MultimodalInput" where
  "coerced_MultimodalInput m =
     \<lparr>Type_MI = toValidUTF8 (Type_MI m), Text_MI = toValidUTF8 (Text_MI m),
      ImageBase64_MI = toValidUTF8 (ImageBase64_MI m),
      ImageURL_MI = toValidUTF8 (ImageURL_MI m)\<rparr>"

definition coerced_MultimodalContent :: "MultimodalContent \<Rightarrow> MultimodalContent" where
  "coerced_MultimodalContent mc =
     \<lparr>Content = map_option (map coerced_MultimodalInput) (Content mc)\<rparr>"

definition coerced_MultimodalRequest :: "MultimodalRequest \<Rightarrow> MultimodalRequest" where
  "coerced_MultimodalRequest r =
     r\<lparr>Inputs_MR := map_option (map coerced_MultimodalContent) (Inputs_MR r),
       Model_MR := toValidUTF8 (Model_MR r),
       InputType_MR := map_option toValidUTF8 (InputType_MR r),
       OuputEncoding_MR := map_option toValidUTF8 (OuputEncoding_MR r)\<rparr>"

definition coerced_RerankRequest :: "RerankRequest \<Rightarrow> RerankRequest" where
  "coerced_RerankRequest r =
     r\<lparr>Query_RR := toValidUTF8 (Query_RR r),
       Documents_RR := map_option (map toValidUTF8) (Documents_RR r),
       Model_RR := toValidUTF8 (Model_RR r)\<rparr>"

text \<open>
  A variant of a multimodal input is populated when its payload field is not empty
  (an empty payload field is left out of the wire form).
\<close>

definition populatedVariants :: "MultimodalInput \<Rightarrow> nat" where
  "populatedVariants m =
     (if Text_MI m \<noteq> [] then 1 else 0) + (if ImageBase64_MI m \<noteq> [] then 1 else 0)
       + (if ImageURL_MI m \<noteq> [] then 1 else 0)"

definition namesPopulatedVariant :: "MultimodalInput \<Rightarrow> bool" where
  "namesPopulatedVariant m \<longleftrightarrow>
     (Type_MI m = ''text'' \<and> Text_MI m \<noteq> [])
     \<or> (Type_MI m = ''image_base64'' \<and> ImageBase64_MI m \<noteq> [])
     \<or> (Type_MI m = ''image_url'' \<and> ImageURL_MI m \<noteq> [])"

subsection \<open>A mock endpoint\<close>

text \<open>
  The fixtures of the examples, after the test server of the repository's tests: a
  client with a given \<open>MaxRetries\<close>, an endpoint whose reply depends on how many requests
  it has received, and a decoder that accepts the body \<open>{}\<close> only.
\<close>

definition mockClient :: "int \<Rightarrow> VoyageClient" where
  "mockClient maxRetries =
     \<lparr>apikey = ''APIKEY'',
      opts = \<lparr>Key = ''APIKEY'', TimeOut = 1500, MaxRetries = maxRetries,
              BaseURL = ''http://mock''\<rparr>,
      baseURL = ''http://mock''\<rparr>"

definition mockEndpoint ::
  "(nat \<Rightarrow> reply) \<Rightarrow> (string \<Rightarrow> 'resp \<Rightarrow> string option \<times> 'resp) \<Rightarrow> ('req, 'resp) env" where
  "mockEndpoint server decode =
     \<lparr>Marshal = (\<lambda>reqBody. Inr ''{}''),
      NewRequest = (\<lambda>url. None),
      Do = (\<lambda>n url auth body. server n),
      Unmarshal = decode\<rparr>"

definition decodeEmpty :: "string \<Rightarrow> 'resp \<Rightarrow> string option \<times> 'resp" where
  "decodeEmpty body respBody =
     (if body = ''{}'' then (None, respBody) else (Some ''invalid character'', respBody))"

definition always :: "int \<Rightarrow> string \<Rightarrow> nat \<Rightarrow> reply" where
  "always code body n = Replied code body"

text \<open>
  An endpoint that answers 500 twice and then 200 with a body that is no JSON, one that
  answers 429 twice and then 201 with a body that decodes, a transport that fails on
  every request, and a reply whose body cannot be read.
\<close>

definition thenMalformed :: "nat \<Rightarrow> reply" where
  "thenMalformed n = (if n < 2 then Replied 500 ''oops'' else Replied 200 ''<html>'')"

definition thenAccepted :: "nat \<Rightarrow> reply" where
  "thenAccepted n = (if n < 2 then Replied 429 ''slow down'' else Replied 201 ''{}'')"

definition refused :: "nat \<Rightarrow> reply" where
  "refused n = DoFailed ''connection refused''"

definition truncated :: "nat \<Rightarrow> reply" where
  "truncated n = ReadFailed 200 ''unexpected EOF''"

section \<open>The classifier\<close>

text \<open>
  C2. For every \<open>APIError\<close> with status code \<open>s \<ge> 400\<close> the classifier answers not
  retryable for \<open>s\<close> in \<open>{400, 401, 422}\<close>, retryable for \<open>429\<close> and retryable for every
  other \<open>s \<ge> 400\<close>; the error it returns beside the flag is never nil and has a
  non-empty text.
\<close>

theorem handleAPIError_policy:
  assumes "400 \<le> StatusCode resp"
  shows "fst (handleAPIError resp) = (StatusCode resp \<notin> {400, 401, 422})
       \<and> (StatusCode resp = 429 \<longrightarrow> fst (handleAPIError resp))
       \<and> (\<exists>msg. snd (handleAPIError resp) = Some (Errorf msg) \<and> msg \<noteq> [])"
  by (simp add: handleAPIError_def)

theorem handleAPIError_policy_witness:
  "(400::int) \<le> StatusCode \<lparr>StatusCode = 400, Response = ''{}''\<rparr>
   \<and> fst (handleAPIError \<lparr>StatusCode = 400, Response = ''{}''\<rparr>) = False
   \<and> fst (handleAPIError \<lparr>StatusCode = 429, Response = ''{}''\<rparr>) = True
   \<and> fst (handleAPIError \<lparr>StatusCode = 503, Response = ''{}''\<rparr>) = True
   \<and> snd (handleAPIError \<lparr>StatusCode = 503, Response = ''{}''\<rparr>) \<noteq> None"
  using handleAPIError_policy [of "\<lparr>StatusCode = 400, Response = ''{}''\<rparr>"]
    handleAPIError_policy [of "\<lparr>StatusCode = 429, Response = ''{}''\<rparr>"]
    handleAPIError_policy [of "\<lparr>StatusCode = 503, Response = ''{}''\<rparr>"]
  by auto

text \<open>
  C4, as amended. For the status codes 400, 401 and 422 the classifier of \<open>client.go\<close>
  answers not retryable, with the error text \<open>voyage: bad request, detail: \<close>,
  \<open>voyage: unauthorized, detail: \<close> or \<open>voyage: Malformed Request, detail: \<close> followed
  by the response body as it was received: the body is not parsed, so no parse can
  fail, and the classifier has no failing branch. The retry loop hands an \<open>APIError\<close>
  to this classifier.
\<close>

theorem handleAPIError_fatal_text:
  "handleAPIError \<lparr>StatusCode = 400, Response = body\<rparr> =
     (False, Some (Errorf (''voyage: bad request, detail: '' @ body)))
   \<and> handleAPIError \<lparr>StatusCode = 401, Response = body\<rparr> =
     (False, Some (Errorf (''voyage: unauthorized, detail: '' @ body)))
   \<and> handleAPIError \<lparr>StatusCode = 422, Response = body\<rparr> =
     (False, Some (Errorf (''voyage: Malformed Request, detail: '' @ body)))
   \<and> classifyError (APIErr resp) = handleAPIError resp"
  by (simp add: handleAPIError_def classifyError_def)

section \<open>The retry loop\<close>

lemma executeRequest_api_error:
  assumes "Marshal e reqBody = Inr b" and "NewRequest e url = None"
    and "do c e n url b = Replied code body" and "400 \<le> code"
  shows "executeRequest c e reqBody respBody url n =
           (Some (APIErr \<lparr>StatusCode = code, Response = body\<rparr>), respBody, Suc n)"
  using assms by (simp add: executeRequest_def)

lemma classifyError_library_error [simp]:
  "classifyError (Wrapped p (LibError m)) = (False, Some (Wrapped p (LibError m)))"
  by (simp add: classifyError_def)

lemma executeRequest_retry_is_api_error:
  assumes "executeRequest c e reqBody respBody url n = (Some err, r, n')"
    and "fst (classifyError err)"
  shows "\<exists>code body. err = APIErr \<lparr>StatusCode = code, Response = body\<rparr> \<and> 400 \<le> code
           \<and> r = respBody \<and> n' = Suc n"
  using assms
  by (auto simp: executeRequest_def
      split: sum.splits option.splits reply.splits if_splits prod.splits)

lemma executeRequest_error_response:
  assumes "executeRequest c e reqBody respBody url n = (Some err, r, n')"
  shows "r = respBody \<or> (\<exists>body derr. Unmarshal e body respBody = (Some derr, r))"
  using assms
  by (auto simp: executeRequest_def
      split: sum.splits option.splits reply.splits if_splits prod.splits)

lemma retryLoop_exit:
  "\<not> i < maxRetries \<Longrightarrow>
     retryLoop c e reqBody url maxRetries i lastErr respBody n = (lastErr, respBody, n)"
  by (subst retryLoop.simps) simp

lemma retryLoop_retry_step:
  assumes "Marshal e reqBody = Inr b" and "NewRequest e url = None"
    and "retryable (do c e n url b)" and "i < maxRetries"
  shows "retryLoop c e reqBody url maxRetries i lastErr respBody n =
           retryLoop c e reqBody url maxRetries (i + 1) (classified (do c e n url b))
             respBody (Suc n)"
proof -
  from assms(3) obtain code body where r: "do c e n url b = Replied code body"
    and code: "400 \<le> code"
    and retry: "fst (handleAPIError \<lparr>StatusCode = code, Response = body\<rparr>)"
    by (auto simp: retryable_def split: reply.splits)
  have ex: "executeRequest c e reqBody respBody url n =
           (Some (APIErr \<lparr>StatusCode = code, Response = body\<rparr>), respBody, Suc n)"
    by (rule executeRequest_api_error [OF assms(1,2) r code])
  obtain apiErr where h: "handleAPIError \<lparr>StatusCode = code, Response = body\<rparr> = (True, apiErr)"
    using retry by (cases "handleAPIError \<lparr>StatusCode = code, Response = body\<rparr>") auto
  show ?thesis
    by (subst retryLoop.simps) (simp add: ex assms(4) classifyError_def h classified_def r)
qed

lemma retryLoop_fatal_step:
  assumes "i < maxRetries"
    and "executeRequest c e reqBody respBody url n = (Some err, r, n')"
    and "\<not> fst (classifyError err)"
  shows "retryLoop c e reqBody url maxRetries i lastErr respBody n = (Some err, r, n')"
proof -
  obtain apiErr where "classifyError err = (False, apiErr)"
    using assms(3) by (cases "classifyError err") auto
  then show ?thesis
    by (subst retryLoop.simps) (simp add: assms(1,2))
qed

lemma retryLoop_retry_prefix:
  assumes "Marshal e reqBody = Inr b" and "NewRequest e url = None"
    and "\<forall>j<k. retryable (do c e (n + j) url b)"
    and "i + int k \<le> maxRetries"
  shows "retryLoop c e reqBody url maxRetries i lastErr respBody n =
           retryLoop c e reqBody url maxRetries (i + int k)
             (if k = 0 then lastErr else classified (do c e (n + k - 1) url b))
             respBody (n + k)"
  using assms(3,4)
proof (induction k arbitrary: i lastErr n)
  case 0
  then show ?case by simp
next
  case (Suc k)
  have first: "retryable (do c e n url b)" using Suc.prems(1) by force
  have rest: "\<forall>j<k. retryable (do c e (Suc n + j) url b)"
    using Suc.prems(1) by (metis Suc_less_eq add_Suc_shift)
  have "retryLoop c e reqBody url maxRetries i lastErr respBody n =
          retryLoop c e reqBody url maxRetries (i + 1) (classified (do c e n url b))
            respBody (Suc n)"
    using Suc.prems(2) by (intro retryLoop_retry_step [OF assms(1,2) first]) simp
  also have "\<dots> = retryLoop c e reqBody url maxRetries (i + 1 + int k)
             (if k = 0 then classified (do c e n url b)
              else classified (do c e (Suc n + k - 1) url b))
             respBody (Suc n + k)"
    using Suc.prems(2) by (intro Suc.IH [OF rest]) simp
  finally show ?case by (simp add: algebra_simps)
qed

lemma handleAPIRequest_unfold:
  "handleAPIRequest c e reqBody respBody url n =
     retryLoop c e reqBody url (resolvedMaxRetries c) 0 None respBody n"
  by (simp add: handleAPIRequest_def resolvedMaxRetries_def Let_def)

lemma handleAPIRequest_after_retries:
  assumes "Marshal e reqBody = Inr b" and "NewRequest e url = None"
    and "\<forall>j<k. retryable (do c e (n + j) url b)"
    and "int k \<le> resolvedMaxRetries c"
  shows "handleAPIRequest c e reqBody respBody url n =
           retryLoop c e reqBody url (resolvedMaxRetries c) (int k)
             (if k = 0 then None else classified (do c e (n + k - 1) url b))
             respBody (n + k)"
  using retryLoop_retry_prefix [OF assms(1,2,3), of 0 "resolvedMaxRetries c" None respBody]
    assms(4)
  by (simp add: handleAPIRequest_unfold)

lemma classified_retryable_not_None: "retryable r \<Longrightarrow> classified r \<noteq> None"
  by (auto simp: retryable_def classified_def handleAPIError_def split: reply.splits)

lemma retryLoop_error_response:
  "retryLoop c e reqBody url maxRetries i lastErr respBody n = (Some err, r, n') \<Longrightarrow>
     r = respBody \<or> (\<exists>body derr. Unmarshal e body respBody = (Some derr, r))"
proof (induction c e reqBody url maxRetries i lastErr respBody n rule: retryLoop.induct)
  case (1 c e reqBody url maxRetries i lastErr respBody n)
  show ?case
  proof (cases "i < maxRetries")
    case False
    with "1.prems" show ?thesis by (simp add: retryLoop_exit)
  next
    case True
    obtain oerr r1 n1 where ex: "executeRequest c e reqBody respBody url n = (oerr, r1, n1)"
      by (cases "executeRequest c e reqBody respBody url n") auto
    show ?thesis
    proof (cases oerr)
      case None
      with "1.prems" True ex show ?thesis by (subst (asm) retryLoop.simps) simp
    next
      case (Some err1)
      obtain retry apiErr where cl: "classifyError err1 = (retry, apiErr)"
        by (cases "classifyError err1") auto
      show ?thesis
      proof (cases retry)
        case True
        then have r1: "r1 = respBody"
          using executeRequest_retry_is_api_error [of c e reqBody respBody url n err1 r1 n1]
            ex Some cl by auto
        have "retryLoop c e reqBody url maxRetries (i + 1) apiErr r1 n1 = (Some err, r, n')"
          using "1.prems" \<open>i < maxRetries\<close> ex Some cl True
          by (subst (asm) retryLoop.simps) simp
        then have "r = r1 \<or> (\<exists>body derr. Unmarshal e body r1 = (Some derr, r))"
          using "1.IH" [OF \<open>i < maxRetries\<close> ex [symmetric] _ _ cl [symmetric]] Some True
          by simp
        with r1 show ?thesis by simp
      next
        case False
        then have res: "err = err1" "r = r1"
          using "1.prems" \<open>i < maxRetries\<close> ex Some cl
          by (subst (asm) retryLoop.simps, simp)+
        have "r1 = respBody \<or> (\<exists>body derr. Unmarshal e body respBody = (Some derr, r1))"
          using executeRequest_error_response [of c e reqBody respBody url n err1 r1 n1]
            ex Some by simp
        with res show ?thesis by simp
      qed
    qed
  qed
qed

lemma handleAPIRequest_error_response:
  assumes "handleAPIRequest c e reqBody respBody url n = (Some err, r, n')"
  shows "r = respBody \<or> (\<exists>body derr. Unmarshal e body respBody = (Some derr, r))"
  using assms unfolding handleAPIRequest_unfold by (rule retryLoop_error_response)

lemmas mock_simps =
  handleAPIRequest_def mockClient_def mockEndpoint_def always_def decodeEmpty_def
  retryLoop.simps executeRequest_def do_def classifyError_def handleAPIError_def
  resolvedMaxRetries_def retryable_def classified_def

subsection \<open>The loop of the earlier revision\<close>

text \<open>
  In the earlier revision a retryable status makes the loop go on and leaves no error
  behind: when every attempt fails with a retryable status, the resolved number of
  requests is sent and the call returns nil. (The repository's test \<open>TestMaxRetries\<close>
  expects just this of a server that always answers 500.)
\<close>

lemma retryLoop0_all_retryable:
  assumes "Marshal e reqBody = Inr b" and "NewRequest e url = None"
    and "\<forall>j<k. \<exists>code body. do c e (n + j) url b = Replied code body \<and> 400 \<le> code
            \<and> fst (handleAPIError0 parseDetail code (Inr body))"
  shows "retryLoop0 parseDetail c e reqBody url k respBody n = (None, respBody, n + k)"
  using assms(3)
proof (induction k arbitrary: n)
  case 0
  then show ?case by simp
next
  case (Suc k)
  from Suc.prems obtain code body where first: "do c e n url b = Replied code body"
    "400 \<le> code" "fst (handleAPIError0 parseDetail code (Inr body))"
    by force
  have rest: "\<forall>j<k. \<exists>code body. do c e (Suc n + j) url b = Replied code body \<and> 400 \<le> code
            \<and> fst (handleAPIError0 parseDetail code (Inr body))"
    using Suc.prems by (metis Suc_less_eq add_Suc_shift)
  obtain herr where h: "handleAPIError0 parseDetail code (Inr body) = (True, herr)"
    using first(3) by (cases "handleAPIError0 parseDetail code (Inr body)") auto
  show ?case
    using Suc.IH [OF rest] by (simp add: assms(1,2) first(1,2) h)
qed

text \<open>
  In the earlier revision the classifier parses the body of a 4xx reply, and a body
  that does not parse makes it return the parse error, not retryable, in place of the
  descriptive error.
\<close>

lemma handleAPIError0_parse_failure:
  assumes "400 \<le> code" and "code < 500" and "parseDetail body = Inl perr"
  shows "handleAPIError0 parseDetail code (Inr body) = (False, Some (LibError perr))"
  using assms by (simp add: handleAPIError0_def)

lemma handleAPIError0_detail:
  assumes "parseDetail body = Inr detail"
  shows "handleAPIError0 parseDetail 401 (Inr body) =
           (False, Some (Errorf (''voyage: unauthorized, detail: '' @ detail)))"
  using assms by (simp add: handleAPIError0_def)

subsection \<open>How a call ends\<close>

text \<open>
  An example of a call that succeeds on its third attempt, with five configured: the
  endpoint answers 429 twice and then 201.
\<close>

lemma handleAPIRequest_recovers_example:
  "handleAPIRequest (mockClient 5) (mockEndpoint thenAccepted decodeEmpty) () ()
     ''http://mock/embeddings'' 0 = (None, (), 3)"
  by (simp add: mock_simps thenAccepted_def)

text \<open>
  C1, as amended. For every call of \<open>handleAPIRequest\<close> (of \<open>client.go\<close>) with
  \<open>MaxRetries \<ge> 0\<close> in which every attempt fails with a retryable API error, the
  number of requests sent equals the resolved attempt count (\<open>MaxRetries\<close>, or 1 when
  \<open>MaxRetries\<close> is zero), and the call returns a failure: the error the classifier
  made of the last reply. The response object is as it was handed in.
\<close>

theorem handleAPIRequest_retries_exhausted:
  assumes "0 \<le> MaxRetries (opts c)"
    and "Marshal e reqBody = Inr b" and "NewRequest e url = None"
    and "\<forall>j < nat (resolvedMaxRetries c). retryable (do c e (n + j) url b)"
  shows "handleAPIRequest c e reqBody respBody url n =
           (classified (do c e (n + nat (resolvedMaxRetries c) - 1) url b), respBody,
            n + nat (resolvedMaxRetries c))
         \<and> classified (do c e (n + nat (resolvedMaxRetries c) - 1) url b) \<noteq> None"
proof -
  let ?N = "nat (resolvedMaxRetries c)"
  have pos: "0 < resolvedMaxRetries c" using assms(1) by (simp add: resolvedMaxRetries_def)
  then have N: "int ?N = resolvedMaxRetries c" "?N \<noteq> 0" by simp_all
  have "handleAPIRequest c e reqBody respBody url n =
          retryLoop c e reqBody url (resolvedMaxRetries c) (int ?N)
            (if ?N = 0 then None else classified (do c e (n + ?N - 1) url b)) respBody (n + ?N)"
    by (rule handleAPIRequest_after_retries [OF assms(2,3,4)]) (use pos in simp)
  also have "\<dots> = (classified (do c e (n + ?N - 1) url b), respBody, n + ?N)"
    using N by (simp add: retryLoop_exit)
  finally have res: "handleAPIRequest c e reqBody respBody url n =
          (classified (do c e (n + ?N - 1) url b), respBody, n + ?N)" .
  have "?N - 1 < ?N" using N by simp
  then have "retryable (do c e (n + (?N - 1)) url b)" using assms(4) by blast
  moreover have "n + (?N - 1) = n + ?N - 1" using N by simp
  ultimately have "classified (do c e (n + ?N - 1) url b) \<noteq> None"
    by (simp add: classified_retryable_not_None)
  with res show ?thesis by simp
qed

theorem handleAPIRequest_retries_exhausted_witness:
  "handleAPIRequest (mockClient 3) (mockEndpoint (always 500 ''oops'') decodeEmpty) () ()
     ''http://mock/embeddings'' 0 = (Some (Errorf ''voyage: Server Error''), (), 3)
   \<and> handleAPIRequest (mockClient 0) (mockEndpoint (always 429 ''slow down'') decodeEmpty) () ()
     ''http://mock/embeddings'' 0 =
       (Some (Errorf ''voyage: Rate Limit Reached, detail: slow down''), (), 1)"
  using
    handleAPIRequest_retries_exhausted [of "mockClient 3"
      "mockEndpoint (always 500 ''oops'') decodeEmpty" "()" "''{}''"
      "''http://mock/embeddings''" 0 "()"]
    handleAPIRequest_retries_exhausted [of "mockClient 0"
      "mockEndpoint (always 429 ''slow down'') decodeEmpty" "()" "''{}''"
      "''http://mock/embeddings''" 0 "()"]
  by (simp add: mockClient_def mockEndpoint_def always_def do_def handleAPIError_def
      resolvedMaxRetries_def retryable_def classified_def)

text \<open>
  C1 as stated fails twice. With \<open>MaxRetries = -1\<close> and an endpoint that answers 500
  to every request, no request is sent and the call returns nil, where the claim has
  \<open>MaxRetries\<close> attempts and a failure. And the earlier revision of \<open>handleAPIRequest\<close>,
  with \<open>MaxRetries = 3\<close> and the same endpoint, sends three requests and returns nil,
  where the claim has a failure.
\<close>

theorem handleAPIRequest_negative_MaxRetries:
  "handleAPIRequest (mockClient (- 1)) (mockEndpoint (always 500 ''oops'') decodeEmpty) () ()
     ''http://mock/embeddings'' 0 = (None, (), 0)
   \<and> handleAPIRequest0 (\<lambda>body. Inr []) (mockClient 3)
     (mockEndpoint (always 500 ''oops'') decodeEmpty) () () ''http://mock/embeddings'' 0 =
     ((None, (), 3), mockClient 3)"
proof -
  have "retryLoop0 (\<lambda>body. Inr []) (mockClient 3)
     (mockEndpoint (always 500 ''oops'') decodeEmpty) () ''http://mock/embeddings'' 3 () 0
     = (None, (), 0 + 3)"
    by (rule retryLoop0_all_retryable [where b = "''{}''"])
      (simp_all add: mockEndpoint_def always_def do_def handleAPIError0_def)
  then show ?thesis
    by (simp add: handleAPIRequest0_def handleAPIRequest_def mockClient_def retryLoop.simps)
qed

text \<open>
  C3, as amended. For every call with \<open>MaxRetries \<ge> 0\<close> in which the endpoint answers
  the first request with status 401, or with any other status that the classifier does
  not retry, exactly one request is sent, whatever \<open>MaxRetries \<ge> 0\<close> is configured, and
  the retry loop returns the failure at once.
\<close>

theorem handleAPIRequest_fatal_status:
  assumes "0 \<le> MaxRetries (opts c)"
    and "Marshal e reqBody = Inr b" and "NewRequest e url = None"
    and "do c e n url b = Replied code body" and "400 \<le> code"
    and "\<not> fst (handleAPIError \<lparr>StatusCode = code, Response = body\<rparr>)"
  shows "handleAPIRequest c e reqBody respBody url n =
           (Some (APIErr \<lparr>StatusCode = code, Response = body\<rparr>), respBody, Suc n)"
proof -
  have pos: "0 < resolvedMaxRetries c" using assms(1) by (simp add: resolvedMaxRetries_def)
  have ex: "executeRequest c e reqBody respBody url n =
           (Some (APIErr \<lparr>StatusCode = code, Response = body\<rparr>), respBody, Suc n)"
    by (rule executeRequest_api_error [OF assms(2-5)])
  have "\<not> fst (classifyError (APIErr \<lparr>StatusCode = code, Response = body\<rparr>))"
    using assms(6) by (simp add: classifyError_def)
  then show ?thesis
    unfolding handleAPIRequest_unfold by (intro retryLoop_fatal_step [OF pos ex])
qed

theorem handleAPIRequest_fatal_status_witness:
  "handleAPIRequest (mockClient 5) (mockEndpoint (always 401 ''denied'') decodeEmpty) () ()
     ''http://mock/embeddings'' 0 =
       (Some (APIErr \<lparr>StatusCode = 401, Response = ''denied''\<rparr>), (), 1)"
  using handleAPIRequest_fatal_status [of "mockClient 5"
      "mockEndpoint (always 401 ''denied'') decodeEmpty" "()" "''{}''"
      "''http://mock/embeddings''" 0 401 "''denied''" "()"]
  by (simp add: mockClient_def mockEndpoint_def always_def do_def handleAPIError_def)

text \<open>
  C3 as stated fails for a negative \<open>MaxRetries\<close>: with \<open>MaxRetries = -5\<close> and an
  endpoint that answers 401, no request is sent and no failure is returned.
\<close>

theorem handleAPIRequest_unauthorized_negative_MaxRetries:
  "handleAPIRequest (mockClient (- 5)) (mockEndpoint (always 401 ''denied'') decodeEmpty) () ()
     ''http://mock/embeddings'' 0 = (None, (), 0)"
  by (simp add: handleAPIRequest_def mockClient_def retryLoop.simps)

text \<open>
  C4 as stated fails. With the endpoint answering 401 and the body \<open>denied\<close>, which is
  no JSON object, the call returns the \<open>APIError\<close> itself and not the error of the
  classifier, and the text of the classifier's error carries the whole body as its
  detail, where the claim has an empty detail. In the earlier revision, whose classifier
  does parse the body, the error of the failed parse is what the classifier returns.
\<close>

theorem handleAPIRequest_surfaces_APIError:
  "handleAPIRequest (mockClient 3) (mockEndpoint (always 401 ''denied'') decodeEmpty) () ()
     ''http://mock/embeddings'' 0 =
       (Some (APIErr \<lparr>StatusCode = 401, Response = ''denied''\<rparr>), (), 1)
   \<and> snd (handleAPIError \<lparr>StatusCode = 401, Response = ''denied''\<rparr>) =
       Some (Errorf ''voyage: unauthorized, detail: denied'')
   \<and> handleAPIError0 (\<lambda>body. Inl ''invalid character'') 401 (Inr ''denied'') =
       (False, Some (LibError ''invalid character''))"
  by (simp add: mock_simps handleAPIError0_def)

text \<open>
  C5. Only an API error (a reply with status \<open>\<ge> 400\<close>) makes the loop try again. When,
  after \<open>k\<close> retryable failures and with attempts left, marshalling the request fails, or
  the transport fails (the request is not answered, or the body of the reply cannot be
  read), or the body of a reply with a status below 400 does not decode, the call
  returns that error at once and sends no further request: none at all when marshalling
  fails, and \<open>k + 1\<close> in the other cases.
\<close>

theorem only_api_errors_are_retried:
  assumes "int k < resolvedMaxRetries c"
    and "\<forall>j<k. retryable (do c e (n + j) url b)"
  shows "(executeRequest c e reqBody respBody url n = (Some err, r, n') \<and> fst (classifyError err)
            \<longrightarrow> (\<exists>code body. err = APIErr \<lparr>StatusCode = code, Response = body\<rparr> \<and> 400 \<le> code))
     \<and> (Marshal e reqBody = Inl merr
            \<longrightarrow> handleAPIRequest c e reqBody respBody url n =
                  (Some (Wrapped ''marshal request'' (LibError merr)), respBody, n))
     \<and> (Marshal e reqBody = Inr b \<and> NewRequest e url = None
          \<and> do c e (n + k) url b = DoFailed terr
            \<longrightarrow> handleAPIRequest c e reqBody respBody url n =
                  (Some (Wrapped ''execute request'' (LibError terr)), respBody, n + k + 1))
     \<and> (Marshal e reqBody = Inr b \<and> NewRequest e url = None
          \<and> do c e (n + k) url b = ReadFailed rcode rerr
            \<longrightarrow> handleAPIRequest c e reqBody respBody url n =
                  (Some (Wrapped ''read response'' (LibError rerr)), respBody, n + k + 1))
     \<and> (Marshal e reqBody = Inr b \<and> NewRequest e url = None
          \<and> do c e (n + k) url b = Replied code body \<and> code < 400
          \<and> Unmarshal e body respBody = (Some derr, r')
            \<longrightarrow> handleAPIRequest c e reqBody respBody url n =
                  (Some (Wrapped ''unmarshal response'' (LibError derr)), r', n + k + 1))"
proof (intro conjI impI)
  assume "executeRequest c e reqBody respBody url n = (Some err, r, n') \<and> fst (classifyError err)"
  then show "\<exists>code body. err = APIErr \<lparr>StatusCode = code, Response = body\<rparr> \<and> 400 \<le> code"
    using executeRequest_retry_is_api_error [of c e reqBody respBody url n err r n'] by auto
next
  have pos: "0 < resolvedMaxRetries c" using assms(1) by simp
  assume m: "Marshal e reqBody = Inl merr"
  have "executeRequest c e reqBody respBody url n =
          (Some (Wrapped ''marshal request'' (LibError merr)), respBody, n)"
    by (simp add: executeRequest_def m)
  then show "handleAPIRequest c e reqBody respBody url n =
               (Some (Wrapped ''marshal request'' (LibError merr)), respBody, n)"
    unfolding handleAPIRequest_unfold by (intro retryLoop_fatal_step [OF pos]) simp_all
next
  assume a: "Marshal e reqBody = Inr b \<and> NewRequest e url = None
               \<and> do c e (n + k) url b = DoFailed terr"
  have "executeRequest c e reqBody respBody url (n + k) =
          (Some (Wrapped ''execute request'' (LibError terr)), respBody, Suc (n + k))"
    using a by (simp add: executeRequest_def)
  then have "retryLoop c e reqBody url (resolvedMaxRetries c) (int k)
               (if k = 0 then None else classified (do c e (n + k - 1) url b)) respBody (n + k) =
             (Some (Wrapped ''execute request'' (LibError terr)), respBody, Suc (n + k))"
    using assms(1) by (intro retryLoop_fatal_step) simp_all
  moreover have "handleAPIRequest c e reqBody respBody url n =
          retryLoop c e reqBody url (resolvedMaxRetries c) (int k)
            (if k = 0 then None else classified (do c e (n + k - 1) url b)) respBody (n + k)"
    using a assms by (intro handleAPIRequest_after_retries) simp_all
  ultimately show "handleAPIRequest c e reqBody respBody url n =
               (Some (Wrapped ''execute request'' (LibError terr)), respBody, n + k + 1)"
    by simp
next
  assume a: "Marshal e reqBody = Inr b \<and> NewRequest e url = None
               \<and> do c e (n + k) url b = ReadFailed rcode rerr"
  have "executeRequest c e reqBody respBody url (n + k) =
          (Some (Wrapped ''read response'' (LibError rerr)), respBody, Suc (n + k))"
    using a by (simp add: executeRequest_def)
  then have "retryLoop c e reqBody url (resolvedMaxRetries c) (int k)
               (if k = 0 then None else classified (do c e (n + k - 1) url b)) respBody (n + k) =
             (Some (Wrapped ''read response'' (LibError rerr)), respBody, Suc (n + k))"
    using assms(1) by (intro retryLoop_fatal_step) simp_all
  moreover have "handleAPIRequest c e reqBody respBody url n =
          retryLoop c e reqBody url (resolvedMaxRetries c) (int k)
            (if k = 0 then None else classified (do c e (n + k - 1) url b)) respBody (n + k)"
    using a assms by (intro handleAPIRequest_after_retries) simp_all
  ultimately show "handleAPIRequest c e reqBody respBody url n =
               (Some (Wrapped ''read response'' (LibError rerr)), respBody, n + k + 1)"
    by simp
next
  assume a: "Marshal e reqBody = Inr b \<and> NewRequest e url = None
               \<and> do c e (n + k) url b = Replied code body \<and> code < 400
               \<and> Unmarshal e body respBody = (Some derr, r')"
  have "executeRequest c e reqBody respBody url (n + k) =
          (Some (Wrapped ''unmarshal response'' (LibError derr)), r', Suc (n + k))"
    using a by (simp add: executeRequest_def)
  then have "retryLoop c e reqBody url (resolvedMaxRetries c) (int k)
               (if k = 0 then None else classified (do c e (n + k - 1) url b)) respBody (n + k) =
             (Some (Wrapped ''unmarshal response'' (LibError derr)), r', Suc (n + k))"
    using assms(1) by (intro retryLoop_fatal_step) simp_all
  moreover have "handleAPIRequest c e reqBody respBody url n =
          retryLoop c e reqBody url (resolvedMaxRetries c) (int k)
            (if k = 0 then None else classified (do c e (n + k - 1) url b)) respBody (n + k)"
    using a assms by (intro handleAPIRequest_after_retries) simp_all
  ultimately show "handleAPIRequest c e reqBody respBody url n =
               (Some (Wrapped ''unmarshal response'' (LibError derr)), r', n + k + 1)"
    by simp
qed

theorem only_api_errors_are_retried_witness:
  "handleAPIRequest (mockClient 5) (mockEndpoint thenMalformed decodeEmpty) () ()
     ''http://mock/embeddings'' 0 =
       (Some (Wrapped ''unmarshal response'' (LibError ''invalid character'')), (), 3)
   \<and> handleAPIRequest (mockClient 5) (mockEndpoint refused decodeEmpty) () ()
     ''http://mock/embeddings'' 0 =
       (Some (Wrapped ''execute request'' (LibError ''connection refused'')), (), 1)
   \<and> handleAPIRequest (mockClient 5) (mockEndpoint truncated decodeEmpty) () ()
     ''http://mock/embeddings'' 0 =
       (Some (Wrapped ''read response'' (LibError ''unexpected EOF'')), (), 1)
   \<and> handleAPIRequest (mockClient 5)
       ((mockEndpoint (always 500 ''oops'') decodeEmpty)\<lparr>Marshal := \<lambda>reqBody. Inl ''unsupported type''\<rparr>)
       () () ''http://mock/embeddings'' 0 =
       (Some (Wrapped ''marshal request'' (LibError ''unsupported type'')), (), 0)
   \<and> (\<exists>code body. APIErr \<lparr>StatusCode = 500, Response = ''oops''\<rparr> =
         APIErr \<lparr>StatusCode = code, Response = body\<rparr> \<and> 400 \<le> code)"
proof -
  have j2: "\<forall>j<2. retryable (do (mockClient 5) (mockEndpoint thenMalformed decodeEmpty)
              (0 + j) ''http://mock/embeddings'' ''{}'')"
    by (simp add: mockEndpoint_def thenMalformed_def do_def retryable_def handleAPIError_def)
  have a: "handleAPIRequest (mockClient 5) (mockEndpoint thenMalformed decodeEmpty) () ()
     ''http://mock/embeddings'' 0 =
       (Some (Wrapped ''unmarshal response'' (LibError ''invalid character'')), (), 3)"
    using only_api_errors_are_retried [where k = 2 and c = "mockClient 5"
        and e = "mockEndpoint thenMalformed decodeEmpty" and n = 0
        and url = "''http://mock/embeddings''" and b = "''{}''" and reqBody = "()"
        and respBody = "()" and code = 200 and body = "''<html>''"
        and derr = "''invalid character''" and r' = "()", OF _ j2]
    by (simp add: mockClient_def mockEndpoint_def thenMalformed_def decodeEmpty_def do_def
        resolvedMaxRetries_def)
  have b: "handleAPIRequest (mockClient 5) (mockEndpoint refused decodeEmpty) () ()
     ''http://mock/embeddings'' 0 =
       (Some (Wrapped ''execute request'' (LibError ''connection refused'')), (), 1)"
    using only_api_errors_are_retried [where k = 0 and c = "mockClient 5"
        and e = "mockEndpoint refused decodeEmpty" and n = 0
        and url = "''http://mock/embeddings''" and b = "''{}''" and reqBody = "()"
        and respBody = "()" and terr = "''connection refused''"]
    by (simp add: mockClient_def mockEndpoint_def refused_def do_def resolvedMaxRetries_def)
  have b': "handleAPIRequest (mockClient 5) (mockEndpoint truncated decodeEmpty) () ()
     ''http://mock/embeddings'' 0 =
       (Some (Wrapped ''read response'' (LibError ''unexpected EOF'')), (), 1)"
    using only_api_errors_are_retried [where k = 0 and c = "mockClient 5"
        and e = "mockEndpoint truncated decodeEmpty" and n = 0
        and url = "''http://mock/embeddings''" and b = "''{}''" and reqBody = "()"
        and respBody = "()" and rcode = 200 and rerr = "''unexpected EOF''"]
    by (simp add: mockClient_def mockEndpoint_def truncated_def do_def resolvedMaxRetries_def)
  have c: "handleAPIRequest (mockClient 5)
       ((mockEndpoint (always 500 ''oops'') decodeEmpty)\<lparr>Marshal := \<lambda>reqBody. Inl ''unsupported type''\<rparr>)
       () () ''http://mock/embeddings'' 0 =
       (Some (Wrapped ''marshal request'' (LibError ''unsupported type'')), (), 0)"
    using only_api_errors_are_retried [where k = 0 and c = "mockClient 5"
        and e = "(mockEndpoint (always 500 ''oops'') decodeEmpty)\<lparr>Marshal := \<lambda>reqBody. Inl ''unsupported type''\<rparr>"
        and n = 0 and url = "''http://mock/embeddings''" and reqBody = "()"
        and respBody = "()" and merr = "''unsupported type''"]
    by (simp add: mockClient_def mockEndpoint_def resolvedMaxRetries_def)
  have d: "\<exists>code body. APIErr \<lparr>StatusCode = 500, Response = ''oops''\<rparr> =
         APIErr \<lparr>StatusCode = code, Response = body\<rparr> \<and> 400 \<le> code"
    using only_api_errors_are_retried [where k = 0 and c = "mockClient 5"
        and e = "mockEndpoint (always 500 ''oops'') decodeEmpty" and n = 0
        and url = "''http://mock/embeddings''" and reqBody = "()" and respBody = "()"
        and err = "APIErr \<lparr>StatusCode = 500, Response = ''oops''\<rparr>" and r = "()" and n' = 1]
    by (simp add: mockClient_def mockEndpoint_def always_def do_def resolvedMaxRetries_def
        executeRequest_def classifyError_def handleAPIError_def)
  from a b b' c d show ?thesis by (intro conjI)
qed

section \<open>The endpoint methods\<close>

lemma Embed_result:
  "\<exists>reqBody r err n'. Embed c e texts model ropts n = ((Some r, err), c, n')
      \<and> handleAPIRequest c e reqBody zero_EmbeddingResponse (baseURL c @ ''/embeddings'') n =
          (err, r, n')"
  by (auto simp: Embed_def Let_def split: prod.splits)

lemma MultimodalEmbed_result:
  "\<exists>reqBody r err n' c'. MultimodalEmbed c e inputs model ropts n = ((Some r, err), c', n')
      \<and> c' = (if MaxRetries (opts c) = 0 then c\<lparr>opts := (opts c)\<lparr>MaxRetries := 1\<rparr>\<rparr> else c)
      \<and> handleAPIRequest c' e reqBody zero_EmbeddingResponse
            (baseURL c' @ ''/multimodalembeddings'') n = (err, r, n')"
  by (auto simp: MultimodalEmbed_def Let_def split: prod.splits)

lemma Rerank_result:
  "\<exists>reqBody r err n' c'. Rerank c e query documents model ropts n = ((Some r, err), c', n')
      \<and> c' = (if MaxRetries (opts c) = 0 then c\<lparr>opts := (opts c)\<lparr>MaxRetries := 1\<rparr>\<rparr> else c)
      \<and> handleAPIRequest c' e reqBody zero_RerankResponse (baseURL c' @ ''/rerank'') n =
          (err, r, n')"
  by (auto simp: Rerank_def Let_def split: prod.splits)

text \<open>
  What the three methods do to the options object: \<open>Embed\<close> leaves it as it is;
  \<open>MultimodalEmbed\<close> and \<open>Rerank\<close> write 1 into \<open>MaxRetries\<close> when it is 0 and change
  nothing else.
\<close>

lemma Embed_client: "fst (snd (Embed c e texts model ropts n)) = c"
  using Embed_result [of c e texts model ropts n] by auto

lemma MultimodalEmbed_client:
  "fst (snd (MultimodalEmbed c e inputs model ropts n)) =
     (if MaxRetries (opts c) = 0 then c\<lparr>opts := (opts c)\<lparr>MaxRetries := 1\<rparr>\<rparr> else c)"
  using MultimodalEmbed_result [of c e inputs model ropts n] by auto

lemma Rerank_client:
  "fst (snd (Rerank c e query documents model ropts n)) =
     (if MaxRetries (opts c) = 0 then c\<lparr>opts := (opts c)\<lparr>MaxRetries := 1\<rparr>\<rparr> else c)"
  using Rerank_result [of c e query documents model ropts n] by auto

text \<open>
  C6 fails on the code. The claim: no endpoint call changes a field of the options
  object. On a client built with \<open>MaxRetries = 0\<close>, \<open>Embed\<close> leaves the options as they
  are, while \<open>MultimodalEmbed\<close> and \<open>Rerank\<close> leave them with \<open>MaxRetries = 1\<close>.
\<close>

theorem MultimodalEmbed_Rerank_write_MaxRetries:
  "MaxRetries (opts (mockClient 0)) = 0
   \<and> MaxRetries (opts (fst (snd (Embed (mockClient 0)
        (mockEndpoint (always 200 ''{}'') decodeEmpty) (Some [''input1''])
        ''voyage-3'' None 0)))) = 0
   \<and> MaxRetries (opts (fst (snd (MultimodalEmbed (mockClient 0)
        (mockEndpoint (always 200 ''{}'') decodeEmpty) (Some [])
        ''voyage-multimodal-3'' None 0)))) = 1
   \<and> MaxRetries (opts (fst (snd (Rerank (mockClient 0)
        (mockEndpoint (always 200 ''{}'') decodeEmpty) ''query'' (Some [''input1''])
        ''rerank-2'' None 0)))) = 1"
  by (simp add: Embed_client MultimodalEmbed_client Rerank_client mockClient_def)

text \<open>
  C10. \<open>Embed\<close>, \<open>MultimodalEmbed\<close> and \<open>Rerank\<close> always return a pointer to a response
  object, never nil, whether or not they return an error. When they return an error,
  the object holds the zero value it was declared with, or what a failed \<open>Unmarshal\<close>
  has written over that zero value.
\<close>

theorem endpoints_return_response_pointer:
  "(\<exists>r. fst (fst (Embed c e1 texts model ropts1 n)) = Some r
        \<and> (snd (fst (Embed c e1 texts model ropts1 n)) \<noteq> None
             \<longrightarrow> errorPathResponse e1 zero_EmbeddingResponse r))
 \<and> (\<exists>r. fst (fst (MultimodalEmbed c e2 inputs model ropts2 n)) = Some r
        \<and> (snd (fst (MultimodalEmbed c e2 inputs model ropts2 n)) \<noteq> None
             \<longrightarrow> errorPathResponse e2 zero_EmbeddingResponse r))
 \<and> (\<exists>r. fst (fst (Rerank c e3 query documents model ropts3 n)) = Some r
        \<and> (snd (fst (Rerank c e3 query documents model ropts3 n)) \<noteq> None
             \<longrightarrow> errorPathResponse e3 zero_RerankResponse r))"
proof (intro conjI)
  obtain reqBody r err n' where
    "Embed c e1 texts model ropts1 n = ((Some r, err), c, n')"
    "handleAPIRequest c e1 reqBody zero_EmbeddingResponse (baseURL c @ ''/embeddings'') n =
       (err, r, n')"
    using Embed_result [of c e1 texts model ropts1 n] by blast
  then show "\<exists>r. fst (fst (Embed c e1 texts model ropts1 n)) = Some r
        \<and> (snd (fst (Embed c e1 texts model ropts1 n)) \<noteq> None
             \<longrightarrow> errorPathResponse e1 zero_EmbeddingResponse r)"
    using handleAPIRequest_error_response [of c e1 reqBody zero_EmbeddingResponse _ n _ r n']
    by (auto simp: errorPathResponse_def)
next
  obtain reqBody r err n' c' where
    "MultimodalEmbed c e2 inputs model ropts2 n = ((Some r, err), c', n')"
    "handleAPIRequest c' e2 reqBody zero_EmbeddingResponse
       (baseURL c' @ ''/multimodalembeddings'') n = (err, r, n')"
    using MultimodalEmbed_result [of c e2 inputs model ropts2 n] by blast
  then show "\<exists>r. fst (fst (MultimodalEmbed c e2 inputs model ropts2 n)) = Some r
        \<and> (snd (fst (MultimodalEmbed c e2 inputs model ropts2 n)) \<noteq> None
             \<longrightarrow> errorPathResponse e2 zero_EmbeddingResponse r)"
    using handleAPIRequest_error_response [of c' e2 reqBody zero_EmbeddingResponse _ n _ r n']
    by (auto simp: errorPathResponse_def)
next
  obtain reqBody r err n' c' where
    "Rerank c e3 query documents model ropts3 n = ((Some r, err), c', n')"
    "handleAPIRequest c' e3 reqBody zero_RerankResponse (baseURL c' @ ''/rerank'') n =
       (err, r, n')"
    using Rerank_result [of c e3 query documents model ropts3 n] by blast
  then show "\<exists>r. fst (fst (Rerank c e3 query documents model ropts3 n)) = Some r
        \<and> (snd (fst (Rerank c e3 query documents model ropts3 n)) \<noteq> None
             \<longrightarrow> errorPathResponse e3 zero_RerankResponse r)"
    using handleAPIRequest_error_response [of c' e3 reqBody zero_RerankResponse _ n _ r n']
    by (auto simp: errorPathResponse_def)
qed

theorem endpoints_return_response_pointer_witness:
  "fst (Embed (mockClient 2) (mockEndpoint (always 500 ''oops'') decodeEmpty)
          (Some [''input1'']) ''test-model'' None 0) =
     (Some zero_EmbeddingResponse, Some (Errorf ''voyage: Server Error''))
   \<and> errorPathResponse
        (mockEndpoint (always 500 ''oops'') decodeEmpty :: (EmbeddingRequest, EmbeddingResponse) env)
        zero_EmbeddingResponse zero_EmbeddingResponse
   \<and> fst (Rerank (mockClient 2) (mockEndpoint (always 200 ''<html>'') decodeEmpty)
          ''query'' (Some [''input1'']) ''test-model'' None 0) =
     (Some zero_RerankResponse,
      Some (Wrapped ''unmarshal response'' (LibError ''invalid character'')))
   \<and> errorPathResponse
        (mockEndpoint (always 200 ''<html>'') decodeEmpty :: (RerankRequest, RerankResponse) env)
        zero_RerankResponse zero_RerankResponse"
proof -
  have a: "fst (Embed (mockClient 2) (mockEndpoint (always 500 ''oops'') decodeEmpty)
          (Some [''input1'']) ''test-model'' None 0) =
     (Some zero_EmbeddingResponse, Some (Errorf ''voyage: Server Error''))"
    by (simp add: Embed_def mock_simps)
  have b: "fst (Rerank (mockClient 2) (mockEndpoint (always 200 ''<html>'') decodeEmpty)
          ''query'' (Some [''input1'']) ''test-model'' None 0) =
     (Some zero_RerankResponse,
      Some (Wrapped ''unmarshal response'' (LibError ''invalid character'')))"
    by (simp add: Rerank_def mock_simps)
  show ?thesis
    using endpoints_return_response_pointer [of "mockClient 2"
        "mockEndpoint (always 500 ''oops'') decodeEmpty" "Some [''input1'']" "''test-model''" None 0
        "mockEndpoint (always 500 ''oops'') decodeEmpty" "Some []" None
        "mockEndpoint (always 200 ''<html>'') decodeEmpty" "''query''" "Some [''input1'']" None]
    by (auto simp: a b)
qed

section \<open>The wire form of the requests\<close>

subsection \<open>Strings\<close>

lemma toValidUTF8_valid: "validUTF8 s \<Longrightarrow> toValidUTF8 s = s"
proof (induction s rule: validUTF8.induct)
  case 1
  then show ?case by simp
next
  case (2 c cs)
  from "2.prems" have k: "decodeRuneLen (c # cs) \<noteq> 0"
    and rest: "validUTF8 (drop (decodeRuneLen (c # cs)) (c # cs))"
    by (simp_all add: validUTF8.simps(2) del: decodeRuneLen.simps split: if_splits)
  have "toValidUTF8 (drop (decodeRuneLen (c # cs)) (c # cs)) =
          drop (decodeRuneLen (c # cs)) (c # cs)"
    using "2.IH" k rest by simp
  then show ?case using k by (simp add: toValidUTF8.simps(2) del: decodeRuneLen.simps)
qed

lemma validUTF8_ascii: "\<forall>c \<in> set s. inRange 0x00 0x7F c \<Longrightarrow> validUTF8 s"
  by (induction s) (simp_all add: validUTF8.simps(2))

lemma toValidUTF8_Nil_iff [simp]: "toValidUTF8 s = [] \<longleftrightarrow> s = []"
  by (cases s) (auto simp: toValidUTF8.simps(2) simp del: decodeRuneLen.simps)

lemma unmarshalString_marshalString [simp]:
  "unmarshalString (marshalString s) cur = Some (toValidUTF8 s)"
  by (simp add: marshalString_def)

lemma marshalString_not_null [simp]: "marshalString s \<noteq> JNull"
  by (simp add: marshalString_def)

lemma unmarshalPtr_marshalString [simp]:
  "unmarshalPtr unmarshalString z (marshalString s) cur = Some (Some (toValidUTF8 s))"
  by (simp add: unmarshalPtr_def marshalString_def)

lemma unmarshalPtr_JBool [simp]:
  "unmarshalPtr unmarshalBool z (JBool b) cur = Some (Some b)"
  by (simp add: unmarshalPtr_def)

lemma unmarshalPtr_JNumber [simp]:
  "unmarshalPtr unmarshalInt z (JNumber i) cur = Some (Some i)"
  by (simp add: unmarshalPtr_def)

subsection \<open>Round trips\<close>

lemma those_map_decode:
  assumes "\<And>x. dec (enc x) z = Some (f x)"
  shows "those (map ((\<lambda>j. dec j z) \<circ> enc) ys) = Some (map f ys)"
  by (induction ys) (simp_all add: assms)

lemma unmarshalSlice_marshalSlice:
  assumes "\<And>x. dec (enc x) z = Some (f x)"
  shows "unmarshalSlice dec z (marshalSlice enc xs) = Some (map_option (map f) xs)"
  using those_map_decode [of dec enc z f, OF assms]
  by (cases xs) (simp_all add: unmarshalSlice_def marshalSlice_def)

lemma unmarshalSlice_strings [simp]:
  "unmarshalSlice unmarshalString [] (marshalSlice marshalString xs) =
     Some (map_option (map toValidUTF8) xs)"
  by (rule unmarshalSlice_marshalSlice) simp

lemma roundtrip_EmbeddingRequest:
  "unmarshalEmbeddingRequest (marshalEmbeddingRequest r) zero_EmbeddingRequest =
     Some (coerced_EmbeddingRequest r)"
  by (cases r)
    (simp add: unmarshalEmbeddingRequest_def marshalEmbeddingRequest_def unmarshalStruct_def
      setEmbeddingRequestField_def omitemptyPtr_def zero_EmbeddingRequest_def
      coerced_EmbeddingRequest_def split: option.splits)

lemma roundtrip_MultimodalInput:
  "unmarshalMultimodalInput (marshalMultimodalInput m) zero_MultimodalInput =
     Some (coerced_MultimodalInput m)"
  by (cases m)
    (simp add: unmarshalMultimodalInput_def marshalMultimodalInput_def unmarshalStruct_def
      setMultimodalInputField_def omitemptyString_def zero_MultimodalInput_def
      coerced_MultimodalInput_def)

lemma unmarshalSlice_MultimodalInputs [simp]:
  "unmarshalSlice unmarshalMultimodalInput zero_MultimodalInput
     (marshalSlice marshalMultimodalInput xs) =
     Some (map_option (map coerced_MultimodalInput) xs)"
  by (rule unmarshalSlice_marshalSlice) (rule roundtrip_MultimodalInput)

lemma roundtrip_MultimodalContent:
  "unmarshalMultimodalContent (marshalMultimodalContent mc) zero_MultimodalContent =
     Some (coerced_MultimodalContent mc)"
  by (cases mc)
    (simp add: unmarshalMultimodalContent_def marshalMultimodalContent_def unmarshalStruct_def
      setMultimodalContentField_def zero_MultimodalContent_def coerced_MultimodalContent_def)

lemma unmarshalSlice_MultimodalContents [simp]:
  "unmarshalSlice unmarshalMultimodalContent zero_MultimodalContent
     (marshalSlice marshalMultimodalContent xs) =
     Some (map_option (map coerced_MultimodalContent) xs)"
  by (rule unmarshalSlice_marshalSlice) (rule roundtrip_MultimodalContent)

lemma roundtrip_MultimodalRequest:
  "unmarshalMultimodalRequest (marshalMultimodalRequest r) zero_MultimodalRequest =
     Some (coerced_MultimodalRequest r)"
  by (cases r)
    (simp add: unmarshalMultimodalRequest_def marshalMultimodalRequest_def unmarshalStruct_def
      setMultimodalRequestField_def omitemptyPtr_def zero_MultimodalRequest_def
      coerced_MultimodalRequest_def split: option.splits)

lemma roundtrip_RerankRequest:
  "unmarshalRerankRequest (marshalRerankRequest r) zero_RerankRequest =
     Some (coerced_RerankRequest r)"
  by (cases r)
    (simp add: unmarshalRerankRequest_def marshalRerankRequest_def unmarshalStruct_def
      setRerankRequestField_def omitemptyPtr_def zero_RerankRequest_def
      coerced_RerankRequest_def split: option.splits)

lemma members_EmbeddingRequest:
  "member (marshalEmbeddingRequest r) ''input_type'' =
     map_option marshalString (InputType_ER r)"
  "member (marshalEmbeddingRequest r) ''truncation'' = map_option JBool (Truncation_ER r)"
  "member (marshalEmbeddingRequest r) ''output_dimension'' =
     map_option JNumber (OutputDimension_ER r)"
  "member (marshalEmbeddingRequest r) ''output_dtype'' =
     map_option marshalString (OutputDType_ER r)"
  "member (marshalEmbeddingRequest r) ''encoding_format'' =
     map_option marshalString (EncodingFormat_ER r)"
  by (simp_all add: member_def marshalEmbeddingRequest_def omitemptyPtr_def map_add_def
       split: option.splits)

lemma members_MultimodalRequest:
  "member (marshalMultimodalRequest r) ''input_type'' =
     map_option marshalString (InputType_MR r)"
  "member (marshalMultimodalRequest r) ''truncation'' = map_option JBool (Truncation_MR r)"
  "member (marshalMultimodalRequest r) ''output_encoding'' =
     map_option marshalString (OuputEncoding_MR r)"
  by (simp_all add: member_def marshalMultimodalRequest_def omitemptyPtr_def map_add_def
       split: option.splits)

lemma members_RerankRequest:
  "member (marshalRerankRequest r) ''top_k'' = map_option JNumber (TopK_RR r)"
  "member (marshalRerankRequest r) ''return_documents'' =
     map_option JBool (ReturnDocuments_RR r)"
  "member (marshalRerankRequest r) ''truncation'' = map_option JBool (Truncation_RR r)"
  by (simp_all add: member_def marshalRerankRequest_def omitemptyPtr_def map_add_def
       split: option.splits)

lemma optional_fields_read_back:
  "InputType_ER (coerced_EmbeddingRequest er) = map_option toValidUTF8 (InputType_ER er)"
  "Truncation_ER (coerced_EmbeddingRequest er) = Truncation_ER er"
  "OutputDimension_ER (coerced_EmbeddingRequest er) = OutputDimension_ER er"
  "OutputDType_ER (coerced_EmbeddingRequest er) = map_option toValidUTF8 (OutputDType_ER er)"
  "EncodingFormat_ER (coerced_EmbeddingRequest er) =
     map_option toValidUTF8 (EncodingFormat_ER er)"
  "InputType_MR (coerced_MultimodalRequest mr) = map_option toValidUTF8 (InputType_MR mr)"
  "Truncation_MR (coerced_MultimodalRequest mr) = Truncation_MR mr"
  "OuputEncoding_MR (coerced_MultimodalRequest mr) =
     map_option toValidUTF8 (OuputEncoding_MR mr)"
  "TopK_RR (coerced_RerankRequest rr) = TopK_RR rr"
  "ReturnDocuments_RR (coerced_RerankRequest rr) = ReturnDocuments_RR rr"
  "Truncation_RR (coerced_RerankRequest rr) = Truncation_RR rr"
  by (simp_all add: coerced_EmbeddingRequest_def coerced_MultimodalRequest_def
       coerced_RerankRequest_def)

text \<open>
  C7. In the JSON object of every request, an optional field that is unset (a nil
  pointer) has no member, and an optional field that is set has a member with its
  value, also when the value is \<open>false\<close>, \<open>0\<close> or the empty string: the member of an
  optional field is \<open>map_option\<close> of the field. Unmarshalling the object into a zero
  request gives the request as it is read back from the wire, in which every optional
  field is set exactly when it was set in the original: a boolean or a number with the
  same value, a string with the same bytes but for those that are no valid UTF-8. So
  what was absent stays absent and what was present stays present, \<open>false\<close> as \<open>false\<close>.
\<close>

theorem request_optional_fields:
  "member (marshalEmbeddingRequest er) ''input_type'' =
       map_option marshalString (InputType_ER er)
   \<and> member (marshalEmbeddingRequest er) ''truncation'' = map_option JBool (Truncation_ER er)
   \<and> member (marshalEmbeddingRequest er) ''output_dimension'' =
       map_option JNumber (OutputDimension_ER er)
   \<and> member (marshalEmbeddingRequest er) ''output_dtype'' =
       map_option marshalString (OutputDType_ER er)
   \<and> member (marshalEmbeddingRequest er) ''encoding_format'' =
       map_option marshalString (EncodingFormat_ER er)
   \<and> unmarshalEmbeddingRequest (marshalEmbeddingRequest er) zero_EmbeddingRequest =
       Some (coerced_EmbeddingRequest er)
   \<and> InputType_ER (coerced_EmbeddingRequest er) = map_option toValidUTF8 (InputType_ER er)
   \<and> Truncation_ER (coerced_EmbeddingRequest er) = Truncation_ER er
   \<and> OutputDimension_ER (coerced_EmbeddingRequest er) = OutputDimension_ER er
   \<and> OutputDType_ER (coerced_EmbeddingRequest er) =
       map_option toValidUTF8 (OutputDType_ER er)
   \<and> EncodingFormat_ER (coerced_EmbeddingRequest er) =
       map_option toValidUTF8 (EncodingFormat_ER er)
   \<and> member (marshalMultimodalRequest mr) ''input_type'' =
       map_option marshalString (InputType_MR mr)
   \<and> member (marshalMultimodalRequest mr) ''truncation'' = map_option JBool (Truncation_MR mr)
   \<and> member (marshalMultimodalRequest mr) ''output_encoding'' =
       map_option marshalString (OuputEncoding_MR mr)
   \<and> unmarshalMultimodalRequest (marshalMultimodalRequest mr) zero_MultimodalRequest =
       Some (coerced_MultimodalRequest mr)
   \<and> InputType_MR (coerced_MultimodalRequest mr) = map_option toValidUTF8 (InputType_MR mr)
   \<and> Truncation_MR (coerced_MultimodalRequest mr) = Truncation_MR mr
   \<and> OuputEncoding_MR (coerced_MultimodalRequest mr) =
       map_option toValidUTF8 (OuputEncoding_MR mr)
   \<and> member (marshalRerankRequest rr) ''top_k'' = map_option JNumber (TopK_RR rr)
   \<and> member (marshalRerankRequest rr) ''return_documents'' =
       map_option JBool (ReturnDocuments_RR rr)
   \<and> member (marshalRerankRequest rr) ''truncation'' = map_option JBool (Truncation_RR rr)
   \<and> unmarshalRerankRequest (marshalRerankRequest rr) zero_RerankRequest =
       Some (coerced_RerankRequest rr)
   \<and> TopK_RR (coerced_RerankRequest rr) = TopK_RR rr
   \<and> ReturnDocuments_RR (coerced_RerankRequest rr) = ReturnDocuments_RR rr
   \<and> Truncation_RR (coerced_RerankRequest rr) = Truncation_RR rr"
  by (intro conjI members_EmbeddingRequest members_MultimodalRequest members_RerankRequest
      roundtrip_EmbeddingRequest roundtrip_MultimodalRequest roundtrip_RerankRequest
      optional_fields_read_back)

text \<open>
  An example: a rerank request with \<open>return_documents\<close> set to \<open>false\<close>, \<open>top_k\<close> set to
  \<open>0\<close> and \<open>truncation\<close> unset.
\<close>

lemma rerank_wire_example:
  "marshalRerankRequest
     \<lparr>Query_RR = ''query'', Documents_RR = Some [''input1''], Model_RR = ''rerank-2'',
      TopK_RR = Some 0, ReturnDocuments_RR = Some False, Truncation_RR = None\<rparr> =
   JObject [(''query'', JString ''query''), (''documents'', JArray [JString ''input1'']),
     (''model'', JString ''rerank-2''), (''top_k'', JNumber 0),
     (''return_documents'', JBool False)]"
proof -
  have "toValidUTF8 ''query'' = ''query''" "toValidUTF8 ''input1'' = ''input1''"
    "toValidUTF8 ''rerank-2'' = ''rerank-2''"
    by (rule toValidUTF8_valid, rule validUTF8_ascii, simp add: inRange_def)+
  then show ?thesis
    by (simp add: marshalRerankRequest_def marshalSlice_def omitemptyPtr_def marshalString_def)
qed

text \<open>
  A request whose strings are all valid UTF-8 is read back as it was: the round trip
  then gives the request itself. Shown for the embedding and the rerank request and for
  a multimodal input.
\<close>

lemma map_toValidUTF8_valid: "\<forall>s \<in> set ss. validUTF8 s \<Longrightarrow> map toValidUTF8 ss = ss"
  by (induction ss) (simp_all add: toValidUTF8_valid)

lemma roundtrip_EmbeddingRequest_valid:
  assumes "\<forall>ss. Input_ER r = Some ss \<longrightarrow> (\<forall>s \<in> set ss. validUTF8 s)"
    and "validUTF8 (Model_ER r)"
    and "\<forall>s. InputType_ER r = Some s \<longrightarrow> validUTF8 s"
    and "\<forall>s. OutputDType_ER r = Some s \<longrightarrow> validUTF8 s"
    and "\<forall>s. EncodingFormat_ER r = Some s \<longrightarrow> validUTF8 s"
  shows "unmarshalEmbeddingRequest (marshalEmbeddingRequest r) zero_EmbeddingRequest = Some r"
proof -
  have "coerced_EmbeddingRequest r = r"
    using assms
    by (cases r; cases "Input_ER r"; cases "InputType_ER r"; cases "OutputDType_ER r";
        cases "EncodingFormat_ER r")
      (simp_all add: coerced_EmbeddingRequest_def toValidUTF8_valid map_toValidUTF8_valid)
  then show ?thesis by (simp add: roundtrip_EmbeddingRequest)
qed

lemma roundtrip_RerankRequest_valid:
  assumes "validUTF8 (Query_RR r)"
    and "\<forall>ss. Documents_RR r = Some ss \<longrightarrow> (\<forall>s \<in> set ss. validUTF8 s)"
    and "validUTF8 (Model_RR r)"
  shows "unmarshalRerankRequest (marshalRerankRequest r) zero_RerankRequest = Some r"
proof -
  have "coerced_RerankRequest r = r"
    using assms
    by (cases r; cases "Documents_RR r")
      (simp_all add: coerced_RerankRequest_def toValidUTF8_valid map_toValidUTF8_valid)
  then show ?thesis by (simp add: roundtrip_RerankRequest)
qed

lemma coerced_MultimodalInput_valid:
  assumes "validUTF8 (Type_MI m)" and "validUTF8 (Text_MI m)"
    and "validUTF8 (ImageBase64_MI m)" and "validUTF8 (ImageURL_MI m)"
  shows "coerced_MultimodalInput m = m"
  using assms by (simp add: coerced_MultimodalInput_def toValidUTF8_valid)

lemma validUTF8_discriminators:
  "validUTF8 ''text''" "validUTF8 ''image_base64''" "validUTF8 ''image_url''"
  by (rule validUTF8_ascii, simp add: inRange_def)+

text \<open>
  C8, as amended. For every multimodal content item of the inline-image variant whose
  data URL is a valid UTF-8 string (every ASCII string is one), marshalling it and
  unmarshalling the result into a zero item gives an equal item, whose type
  discriminator is \<open>image_base64\<close> and whose data URL is the original string.
\<close>

theorem inline_image_roundtrip:
  assumes "validUTF8 s"
  shows "unmarshalMultimodalInput (marshalMultimodalInput (Multimodal (Any_imageBase64 s)))
           zero_MultimodalInput = Some (Multimodal (Any_imageBase64 s))
       \<and> Type_MI (Multimodal (Any_imageBase64 s)) = ''image_base64''
       \<and> ImageBase64_MI (Multimodal (Any_imageBase64 s)) = s"
proof -
  have "coerced_MultimodalInput (Multimodal (Any_imageBase64 s)) =
          Multimodal (Any_imageBase64 s)"
    by (rule coerced_MultimodalInput_valid) (simp_all add: assms validUTF8_discriminators)
  then show ?thesis by (simp add: roundtrip_MultimodalInput)
qed

theorem inline_image_roundtrip_witness:
  "validUTF8 ''data:image/png;base64,AA==''
   \<and> unmarshalMultimodalInput
        (marshalMultimodalInput (Multimodal (Any_imageBase64 ''data:image/png;base64,AA=='')))
        zero_MultimodalInput = Some (Multimodal (Any_imageBase64 ''data:image/png;base64,AA==''))
   \<and> Type_MI (Multimodal (Any_imageBase64 ''data:image/png;base64,AA=='')) = ''image_base64''"
proof -
  have v: "validUTF8 ''data:image/png;base64,AA==''"
    by (rule validUTF8_ascii) (simp add: inRange_def)
  show ?thesis
    using v inline_image_roundtrip [OF v] by simp
qed

text \<open>
  C8 as stated fails for a string that is no valid UTF-8: the inline image whose string
  is the one byte \<open>0xFF\<close> is read back with the three bytes \<open>0xEF 0xBF 0xBD\<close> of U+FFFD
  in its place, an item that is not equal to the original.
\<close>

theorem inline_image_invalid_UTF8:
  "unmarshalMultimodalInput (marshalMultimodalInput (Multimodal (Any_imageBase64 [CHR 0xFF])))
     zero_MultimodalInput =
     Some (Multimodal (Any_imageBase64 [CHR 0xEF, CHR 0xBF, CHR 0xBD]))
   \<and> Multimodal (Any_imageBase64 [CHR 0xEF, CHR 0xBF, CHR 0xBD]) \<noteq>
       Multimodal (Any_imageBase64 [CHR 0xFF])"
proof -
  have "toValidUTF8 [CHR 0xFF] = [CHR 0xEF, CHR 0xBF, CHR 0xBD]"
    by (simp add: toValidUTF8.simps(2) inRange_def)
  moreover have "toValidUTF8 ''image_base64'' = ''image_base64''"
    by (rule toValidUTF8_valid) (rule validUTF8_discriminators)
  ultimately show ?thesis
    by (simp add: roundtrip_MultimodalInput coerced_MultimodalInput_def)
qed

section \<open>The constructor of multimodal inputs\<close>

text \<open>
  C9, as amended. For every value of type \<open>text\<close>, \<open>imageBase64\<close> or \<open>imageURL\<close>, the
  type discriminator of the result of \<open>Multimodal\<close> names the variant of that type, the
  payload field of that variant holds the value and the two other payload fields are
  empty: exactly one of the three variants is populated, and the discriminator names
  it, when the value is a non-empty string, and none is populated when it is empty.
  For a value of any other type the result is the empty \<open>MultimodalInput\<close>.
\<close>

theorem Multimodal_one_variant:
  "Multimodal (Any_text s) =
     zero_MultimodalInput\<lparr>Type_MI := ''text'', Text_MI := s\<rparr>
   \<and> populatedVariants (Multimodal (Any_text s)) = (if s = [] then 0 else 1)
   \<and> namesPopulatedVariant (Multimodal (Any_text s)) = (s \<noteq> [])
   \<and> Multimodal (Any_imageBase64 s) =
     zero_MultimodalInput\<lparr>Type_MI := ''image_base64'', ImageBase64_MI := s\<rparr>
   \<and> populatedVariants (Multimodal (Any_imageBase64 s)) = (if s = [] then 0 else 1)
   \<and> namesPopulatedVariant (Multimodal (Any_imageBase64 s)) = (s \<noteq> [])
   \<and> Multimodal (Any_imageURL s) =
     zero_MultimodalInput\<lparr>Type_MI := ''image_url'', ImageURL_MI := s\<rparr>
   \<and> populatedVariants (Multimodal (Any_imageURL s)) = (if s = [] then 0 else 1)
   \<and> namesPopulatedVariant (Multimodal (Any_imageURL s)) = (s \<noteq> [])
   \<and> Multimodal (Any_string s) = zero_MultimodalInput
   \<and> Multimodal (Any_int i) = zero_MultimodalInput
   \<and> Multimodal Any_nil = zero_MultimodalInput"
  by (simp add: populatedVariants_def namesPopulatedVariant_def zero_MultimodalInput_def)

theorem Multimodal_one_variant_witness:
  "populatedVariants (Multimodal (Any_text ''a picture'')) = 1
   \<and> namesPopulatedVariant (Multimodal (Any_text ''a picture''))
   \<and> populatedVariants (Multimodal (Any_imageBase64 ''data:image/png;base64,AA=='')) = 1
   \<and> namesPopulatedVariant (Multimodal (Any_imageBase64 ''data:image/png;base64,AA==''))
   \<and> populatedVariants (Multimodal (Any_imageURL ''http://mock/gopher.png'')) = 1
   \<and> namesPopulatedVariant (Multimodal (Any_imageURL ''http://mock/gopher.png''))
   \<and> Multimodal (Any_string ''a picture'') = zero_MultimodalInput"
  using Multimodal_one_variant [of "''a picture''"]
    Multimodal_one_variant [of "''data:image/png;base64,AA==''"]
    Multimodal_one_variant [of "''http://mock/gopher.png''"]
  by (simp add: zero_MultimodalInput_def)

text \<open>
  C9 as stated fails: for the \<open>int\<close> 7 (a type the constructor does not know, for which
  it returns the empty input by its documentation) no variant is populated and the
  discriminator is empty; for the empty \<open>text\<close> the discriminator is \<open>text\<close> and no variant
  is populated.
\<close>

theorem Multimodal_no_variant:
  "populatedVariants (Multimodal (Any_int 7)) = 0
   \<and> Type_MI (Multimodal (Any_int 7)) = []
   \<and> populatedVariants (Multimodal (Any_text [])) = 0
   \<and> Type_MI (Multimodal (Any_text [])) = ''text''"
  by (simp add: populatedVariants_def zero_MultimodalInput_def)

end
